theory Spec2Isabelle
  imports Complex_Main
begin

section \<open>JavaScript strings and values\<close>

text \<open>
  Strings are lists of 8-bit characters; the model covers ASCII text, where
  \<open>toLowerCase\<close> changes the letters A to Z only. JavaScript numbers are modelled
  as real numbers (rounding of IEEE doubles is not modelled); the value NaN is
  written out where the source can produce it.
\<close>

definition toLowerChar :: "char \<Rightarrow> char" where
  "toLowerChar c =
     (let n = (of_char c :: nat) in if 65 \<le> n \<and> n \<le> 90 then char_of (n + 32) else c)"

definition toLowerCase :: "string \<Rightarrow> string" where
  "toLowerCase s = map toLowerChar s"

definition isSpace :: "char \<Rightarrow> bool" where
  \<comment> \<open>the class \<open>\s\<close> of JavaScript regular expressions, within 8-bit characters\<close>
  "isSpace c = ((of_char c :: nat) \<in> {9, 10, 11, 12, 13, 32, 160})"

definition isDigit :: "char \<Rightarrow> bool" where
  "isDigit c = (48 \<le> (of_char c :: nat) \<and> (of_char c :: nat) \<le> 57)"

definition isLower :: "char \<Rightarrow> bool" where
  "isLower c = (97 \<le> (of_char c :: nat) \<and> (of_char c :: nat) \<le> 122)"

definition isUpper :: "char \<Rightarrow> bool" where
  "isUpper c = (65 \<le> (of_char c :: nat) \<and> (of_char c :: nat) \<le> 90)"

definition trim :: "string \<Rightarrow> string" where
  "trim s = rev (dropWhile isSpace (rev (dropWhile isSpace s)))"

definition startsWith :: "string \<Rightarrow> string \<Rightarrow> bool" where
  "startsWith s k = (take (length k) s = k)"

fun includesStr :: "string \<Rightarrow> string \<Rightarrow> bool" where
  "includesStr [] k = (k = [])"
| "includesStr (c # s) k = (startsWith (c # s) k \<or> includesStr s k)"

fun split :: "char \<Rightarrow> string \<Rightarrow> string list" where
  "split d [] = [[]]"
| "split d (c # cs) =
     (if c = d then [] # split d cs
      else (case split d cs of [] \<Rightarrow> [[c]] | w # ws \<Rightarrow> (c # w) # ws))"

definition truthy :: "string option \<Rightarrow> bool" where
  \<comment> \<open>truthiness of a value of type \<open>string | null | undefined\<close>: the empty string is falsy\<close>
  "truthy v = (case v of None \<Rightarrow> False | Some s \<Rightarrow> s \<noteq> [])"

definition orNull :: "string option \<Rightarrow> string option" where
  \<comment> \<open>\<open>v || null\<close>\<close>
  "orNull v = (if truthy v then v else None)"

definition orElse :: "string option \<Rightarrow> string \<Rightarrow> string" where
  \<comment> \<open>\<open>v || d\<close>\<close>
  "orElse v d = (case v of None \<Rightarrow> d | Some s \<Rightarrow> if s = [] then d else s)"

fun findFirst :: "('a \<Rightarrow> bool) \<Rightarrow> 'a list \<Rightarrow> 'a option" where
  \<comment> \<open>\<open>Array.prototype.find\<close>\<close>
  "findFirst P [] = None"
| "findFirst P (x # xs) = (if P x then Some x else findFirst P xs)"

fun findIndex :: "('a \<Rightarrow> bool) \<Rightarrow> 'a list \<Rightarrow> nat option" where
  "findIndex P [] = None"
| "findIndex P (x # xs) =
     (if P x then Some 0 else (case findIndex P xs of None \<Rightarrow> None | Some i \<Rightarrow> Some (Suc i)))"

datatype error = DatabaseError | TypeError | NotFound

section \<open>Pattern store (learning service)\<close>

record categoryPattern =
  pat_userId :: string
  pat_description :: string
  pat_merchant :: "string option"
  pat_categoryId :: string
  pat_confidence :: real
  pat_isUserCorrection :: bool
  pat_updatedAt :: nat

text \<open>
  The table \<open>categoryPattern\<close> is a list of rows in the order the database yields
  them for a query without \<open>orderBy\<close>; a row is identified by its position.

  Prisma translates \<open>equals\<close> and \<open>contains\<close> with \<open>mode: 'insensitive'\<close> on PostgreSQL
  to \<open>ILIKE\<close> with the value of the query as the pattern, not escaped: in the pattern
  \<open>%\<close> stands for any text, \<open>_\<close> for any one character, and a backslash takes the
  next character literally. \<open>matchLoop\<close> follows the matcher of PostgreSQL
  (\<open>MatchText\<close>), which raises an error when it reaches a backslash that ends the
  pattern; \<open>LikeAbort\<close> is its answer that no later position of the text can match.
\<close>

datatype likeResult = LikeTrue | LikeFalse | LikeAbort | LikeError

fun skipWild :: "string \<Rightarrow> string \<Rightarrow> (string \<times> string) option" where
  \<comment> \<open>the wildcards that follow a \<open>%\<close>; \<open>None\<close> when a \<open>_\<close> finds no character left\<close>
  "skipWild t [] = Some (t, [])"
| "skipWild t (c # p) =
     (if c = CHR ''%'' then skipWild t p
      else if c = CHR ''_'' then (case t of [] \<Rightarrow> None | x # t' \<Rightarrow> skipWild t' p)
      else Some (t, c # p))"

definition firstpat :: "string \<Rightarrow> char option" where
  \<comment> \<open>the first literal character of the pattern; \<open>None\<close> for a lone backslash\<close>
  "firstpat p =
     (case p of
        [] \<Rightarrow> None
      | c # p' \<Rightarrow> if c = CHR 0x5C then (case p' of [] \<Rightarrow> None | q # _ \<Rightarrow> Some q) else Some c)"

function (sequential) matchLoop :: "string \<Rightarrow> string \<Rightarrow> likeResult"
  and scanText :: "char \<Rightarrow> string \<Rightarrow> string \<Rightarrow> likeResult" where
  "matchLoop [] p = (if dropWhile (\<lambda>c. c = CHR ''%'') p = [] then LikeTrue else LikeAbort)"
| "matchLoop (x # t) [] = LikeFalse"
| "matchLoop (x # t) (c # p) =
     (if c = CHR 0x5C
      then (case p of
              [] \<Rightarrow> LikeError
            | q # p' \<Rightarrow> if q \<noteq> x then LikeFalse else matchLoop t p')
      else if c = CHR ''%''
      then (case skipWild (x # t) p of
              None \<Rightarrow> LikeAbort
            | Some (t1, p1) \<Rightarrow>
                if p1 = [] then LikeTrue
                else (case firstpat p1 of
                        None \<Rightarrow> LikeError
                      | Some f \<Rightarrow> scanText f t1 p1))
      else if c = CHR ''_'' then matchLoop t p
      else if c \<noteq> x then LikeFalse
      else matchLoop t p)"
| "scanText f [] p = LikeAbort"
| "scanText f (x # t) p =
     (if x = f
      then (case matchLoop (x # t) p of
              LikeFalse \<Rightarrow> scanText f t p
            | matched \<Rightarrow> matched)
      else scanText f t p)"
  by pat_completeness auto

termination
proof -
  have skipped: "length p1 \<le> length p \<and> length t1 \<le> length t"
    if "skipWild t p = Some (t1, p1)" for t p t1 p1
    using that by (induction t p rule: skipWild.induct) (auto split: if_splits list.splits)
  show ?thesis
    by (relation "inv_image (less_than <*lex*> less_than <*lex*> less_than)
          (\<lambda>a. case a of Inl (t, p) \<Rightarrow> (length p, length t, 0 :: nat)
                         | Inr (f, t, p) \<Rightarrow> (length p, length t, 1))")
       (auto dest: skipped)
qed

definition MatchText :: "string \<Rightarrow> string \<Rightarrow> likeResult" where
  "MatchText t p = (if p = ''%'' then LikeTrue else matchLoop t p)"

definition ilike :: "string \<Rightarrow> string \<Rightarrow> likeResult" where
  \<comment> \<open>\<open>value ILIKE pattern\<close>: both sides in lower case\<close>
  "ilike v pattern = MatchText (toLowerCase v) (toLowerCase pattern)"

definition plainChar :: "char \<Rightarrow> bool" where
  "plainChar c = (c \<noteq> CHR ''%'' \<and> c \<noteq> CHR ''_'' \<and> c \<noteq> CHR 0x5C)"

definition plainText :: "string \<Rightarrow> bool" where
  \<comment> \<open>a text without the three characters that a pattern of \<open>ILIKE\<close> reads specially\<close>
  "plainText s = list_all plainChar s"

text \<open>
  The conditions of a \<open>where\<close> clause are taken in the order in which they are
  written: the user, then the description, then the merchant. A query with \<open>orderBy\<close>
  reads every row and fails when the matcher raises on one of them; \<open>findFirst\<close>
  without \<open>orderBy\<close> reads the rows in their order and stops at the first that matches.
  The order of the conditions matters only where the matcher raises, which it does on
  no pattern that is a \<open>plainText\<close>.
\<close>

definition keyMatch :: "string \<Rightarrow> string \<Rightarrow> string option \<Rightarrow> categoryPattern \<Rightarrow> bool" where
  \<comment> \<open>the \<open>where\<close> clause shared by \<open>recordUserCorrection\<close> and the exact match:
      \<open>{ userId, description: { equals: description, mode: 'insensitive' },
         merchant: merchant || null }\<close>\<close>
  "keyMatch userId description merchant p =
     (pat_userId p = userId
      \<and> ilike (pat_description p) description = LikeTrue
      \<and> pat_merchant p = orNull merchant)"

definition keyRaises :: "string \<Rightarrow> string \<Rightarrow> categoryPattern \<Rightarrow> bool" where
  \<comment> \<open>the matcher raises on this row\<close>
  "keyRaises userId description p =
     (pat_userId p = userId \<and> ilike (pat_description p) description = LikeError)"

definition allWhere :: "('a \<Rightarrow> bool) \<Rightarrow> ('a \<Rightarrow> bool) \<Rightarrow> 'a list \<Rightarrow> error + 'a list" where
  \<comment> \<open>the rows that match, for a query that reads every row\<close>
  "allWhere matches raises rows =
     (if list_ex raises rows then Inl DatabaseError else Inr (filter matches rows))"

fun firstWhere :: "('a \<Rightarrow> bool) \<Rightarrow> ('a \<Rightarrow> bool) \<Rightarrow> 'a list \<Rightarrow> error + nat option" where
  \<comment> \<open>the position of the first row that matches, for \<open>findFirst\<close> without \<open>orderBy\<close>\<close>
  "firstWhere matches raises [] = Inr None"
| "firstWhere matches raises (r # rows) =
     (if raises r then Inl DatabaseError
      else if matches r then Inr (Some 0)
      else (case firstWhere matches raises rows of
              Inl e \<Rightarrow> Inl e
            | Inr None \<Rightarrow> Inr None
            | Inr (Some i) \<Rightarrow> Inr (Some (Suc i))))"

definition recordUserCorrection ::
  "bool \<Rightarrow> nat \<Rightarrow> categoryPattern list \<Rightarrow> string \<Rightarrow> string \<Rightarrow> string option \<Rightarrow> string \<Rightarrow> real
     \<Rightarrow> categoryPattern list" where
  \<comment> \<open>\<open>up\<close>: the database answers; when it does not, or when the matcher raises, the
      query throws inside the \<open>try\<close> block, the error is logged and nothing is written\<close>
  "recordUserCorrection up now ps userId description merchant categoryId confidence =
     (if \<not> up then ps
      else (case firstWhere (keyMatch userId description merchant) (keyRaises userId description)
                   ps of
              Inl e \<Rightarrow> ps
            | Inr (Some i) \<Rightarrow>
                ps[i := (ps ! i)\<lparr>pat_categoryId := categoryId,
                                 pat_confidence := max confidence (pat_confidence (ps ! i)),
                                 pat_isUserCorrection := True,
                                 pat_updatedAt := now\<rparr>]
            | Inr None \<Rightarrow>
                ps @ [\<lparr>pat_userId = userId, pat_description = description,
                        pat_merchant = merchant, pat_categoryId = categoryId,
                        pat_confidence = confidence, pat_isUserCorrection = True,
                        pat_updatedAt = now\<rparr>]))"

definition stopWords :: "string list" where
  "stopWords = [''upi'', ''the'', ''and'', ''or'', ''but'', ''in'', ''on'', ''at'', ''to'', ''for'',
     ''of'', ''with'', ''by'', ''from'', ''up'', ''about'', ''into'', ''through'', ''during'',
     ''before'', ''after'', ''above'', ''below'', ''between'', ''among'', ''under'', ''over'']"

function collapseWhitespace :: "string \<Rightarrow> string" where
  \<comment> \<open>\<open>replace(/\s+/g, ' ')\<close>\<close>
  "collapseWhitespace [] = []"
| "collapseWhitespace (c # cs) =
     (if isSpace c then CHR '' '' # collapseWhitespace (dropWhile isSpace cs)
      else c # collapseWhitespace cs)"
  by pat_completeness auto
termination
  by (relation "measure length") (auto simp: less_Suc_eq_le length_dropWhile_le)

definition extractKeywords :: "string \<Rightarrow> string list" where
  "extractKeywords text =
     (let cleanText =
            trim (collapseWhitespace
              (map (\<lambda>c. if isLower c \<or> isDigit c \<or> isSpace c then c else CHR '' '')
                 (toLowerCase text)))
      in take 10 (filter (\<lambda>word. length word > 2 \<and> word \<notin> set stopWords)
                    (split (CHR '' '') cleanText)))"

definition calculateSimilarity :: "string list \<Rightarrow> string list \<Rightarrow> real" where
  "calculateSimilarity words1 words2 =
     (if length words1 = 0 \<or> length words2 = 0 then 0
      else (let set1 = remdups words1;
                set2 = remdups words2;
                intersection = filter (\<lambda>word. word \<in> set set2) set1;
                union = remdups (set1 @ set2)
            in real (length intersection) / real (length union)))"

datatype matchType = Exact | Description | Merchant | Keywords

record patternMatch =
  m_categoryId :: string
  m_categoryName :: string
  m_confidence :: real
  m_matchType :: matchType

fun firstByConfidence :: "categoryPattern list \<Rightarrow> categoryPattern option" where
  \<comment> \<open>\<open>findFirst\<close> with \<open>orderBy: { confidence: 'desc' }\<close>: a row of greatest confidence,
      the earliest one among equals\<close>
  "firstByConfidence [] = None"
| "firstByConfidence (p # ps) =
     (case firstByConfidence ps of
        None \<Rightarrow> Some p
      | Some q \<Rightarrow> if pat_confidence p < pat_confidence q then Some q else Some p)"

fun firstSimilar :: "string list \<Rightarrow> categoryPattern list \<Rightarrow> (categoryPattern \<times> real) option" where
  \<comment> \<open>the \<open>for\<close> loop over the patterns of the user, left at the first hit\<close>
  "firstSimilar descWords [] = None"
| "firstSimilar descWords (pattern # patterns) =
     (let similarity = calculateSimilarity descWords (extractKeywords (pat_description pattern))
      in if similarity > 0.7 then Some (pattern, similarity)
         else firstSimilar descWords patterns)"

definition merchantContains :: "string \<Rightarrow> string \<Rightarrow> categoryPattern \<Rightarrow> bool" where
  \<comment> \<open>\<open>where: { userId, merchant: { contains: merchant, mode: 'insensitive' } }\<close>:
      the stored merchant \<open>ILIKE '%' || merchant || '%'\<close>; a null merchant never matches\<close>
  "merchantContains userId merchant p =
     (pat_userId p = userId
      \<and> (case pat_merchant p of None \<Rightarrow> False
          | Some stored \<Rightarrow> ilike stored (''%'' @ merchant @ ''%'') = LikeTrue))"

definition merchantRaises :: "string \<Rightarrow> string \<Rightarrow> categoryPattern \<Rightarrow> bool" where
  "merchantRaises userId merchant p =
     (pat_userId p = userId
      \<and> (case pat_merchant p of None \<Rightarrow> False
          | Some stored \<Rightarrow> ilike stored (''%'' @ merchant @ ''%'') = LikeError))"

definition findSimilarPattern ::
  "bool \<Rightarrow> (string \<Rightarrow> string) \<Rightarrow> categoryPattern list \<Rightarrow> string \<Rightarrow> string \<Rightarrow> string option
     \<Rightarrow> error + patternMatch option" where
  \<comment> \<open>\<open>categoryName\<close> is the relation \<open>include: { category: true }\<close>, from the id of a
      category to its name; with the database down the first query throws\<close>
  "findSimilarPattern up categoryName ps userId description merchant =
     (if \<not> up then Inl DatabaseError
      else (case allWhere (keyMatch userId description merchant) (keyRaises userId description)
                   ps of
        Inl e \<Rightarrow> Inl e
      | Inr exact \<Rightarrow>
       (case firstByConfidence exact of
        Some exactMatch \<Rightarrow>
          Inr (Some \<lparr>m_categoryId = pat_categoryId exactMatch,
                     m_categoryName = categoryName (pat_categoryId exactMatch),
                     m_confidence = pat_confidence exactMatch,
                     m_matchType = Exact\<rparr>)
      | None \<Rightarrow>
         (let descWords = extractKeywords description in
          (case (if length descWords > 0
                 then firstSimilar descWords (filter (\<lambda>p. pat_userId p = userId) ps)
                 else None) of
             Some (pattern, similarity) \<Rightarrow>
               Inr (Some \<lparr>m_categoryId = pat_categoryId pattern,
                          m_categoryName = categoryName (pat_categoryId pattern),
                          m_confidence = pat_confidence pattern * similarity,
                          m_matchType = Description\<rparr>)
           | None \<Rightarrow>
              (case merchant of
                 None \<Rightarrow> Inr None
               | Some m \<Rightarrow>
                   if m = [] then Inr None
                   else
                    (case allWhere (merchantContains userId m) (merchantRaises userId m) ps of
                       Inl e \<Rightarrow> Inl e
                     | Inr found \<Rightarrow>
                        (case firstByConfidence found of
                           Some merchantMatch \<Rightarrow>
                             Inr (Some \<lparr>m_categoryId = pat_categoryId merchantMatch,
                                        m_categoryName = categoryName (pat_categoryId merchantMatch),
                                        m_confidence = pat_confidence merchantMatch * 0.8,
                                        m_matchType = Merchant\<rparr>)
                         | None \<Rightarrow> Inr None))))))))"

section \<open>Classifier (Ollama service)\<close>

datatype jsnum = NaN | Num real

definition jsGreater :: "jsnum \<Rightarrow> real \<Rightarrow> bool" where
  \<comment> \<open>\<open>x > r\<close>: false when \<open>x\<close> is NaN\<close>
  "jsGreater x r = (case x of NaN \<Rightarrow> False | Num v \<Rightarrow> v > r)"

definition mathMin :: "real \<Rightarrow> jsnum \<Rightarrow> jsnum" where
  "mathMin a x = (case x of NaN \<Rightarrow> NaN | Num v \<Rightarrow> Num (min a v))"

definition mathMax :: "real \<Rightarrow> jsnum \<Rightarrow> jsnum" where
  "mathMax a x = (case x of NaN \<Rightarrow> NaN | Num v \<Rightarrow> Num (max a v))"

record categorySuggestion =
  category :: string
  confidence :: jsnum
  reasoning :: string

record quickPattern =
  qp_keywords :: "string list"
  qp_category :: string
  qp_confidence :: real

definition quickPatterns :: "quickPattern list" where
  "quickPatterns = [
    \<lparr>qp_keywords = [''groceries'', ''grocery'', ''food'', ''swiggy'', ''zomato'', ''bigbasket'',
        ''dmart'', ''grofers'', ''fresh''],
      qp_category = ''Groceries & Food'', qp_confidence = 0.95\<rparr>,
    \<lparr>qp_keywords = [''electricity'', ''water'', ''gas'', ''bill'', ''bses'', ''tata power'', ''adani''],
      qp_category = ''Utilities & Bills'', qp_confidence = 0.95\<rparr>,
    \<lparr>qp_keywords = [''recharge'', ''prepaid'', ''postpaid'', ''airtel'', ''jio'', ''vi'', ''bsnl'', ''mtnl''],
      qp_category = ''Mobile & Internet'', qp_confidence = 0.95\<rparr>,
    \<lparr>qp_keywords = [''ola'', ''uber'', ''auto'', ''taxi'', ''metro'', ''petrol'', ''diesel'', ''fuel'',
        ''iocl'', ''bpcl'', ''hpcl''],
      qp_category = ''Transportation'', qp_confidence = 0.95\<rparr>,
    \<lparr>qp_keywords = [''zerodha'', ''stock purchase'', ''equity buy'', ''share buy'', ''kite'', ''upstox'',
        ''angel broking''],
      qp_category = ''Stock Purchase'', qp_confidence = 0.95\<rparr>,
    \<lparr>qp_keywords = [''groww'', ''sip'', ''systematic investment'', ''mutual fund'', ''mf purchase'',
        ''elss'', ''lumpsum''],
      qp_category = ''Mutual Fund Purchase'', qp_confidence = 0.95\<rparr>,
    \<lparr>qp_keywords = [''charges'', ''fee'', ''annual fee'', ''maintenance fee'', ''atm charges'',
        ''sms charges'', ''neft charges'', ''rtgs charges'', ''processing fee'', ''late payment'',
        ''overdraft'', ''foreign transaction'', ''demat charges''],
      qp_category = ''Banking & Credit Card Fees'', qp_confidence = 0.95\<rparr>,
    \<lparr>qp_keywords = [''netflix'', ''amazon prime'', ''spotify'', ''subscription'', ''gift'', ''donation'',
        ''pet'', ''repair'', ''maintenance'', ''legal'', ''books'', ''magazine''],
      qp_category = ''Miscellaneous Expenses'', qp_confidence = 0.90\<rparr>,
    \<lparr>qp_keywords = [''cashback'', ''reward'', ''refund'', ''gift money'', ''prize'', ''reimbursement'',
        ''found money'', ''competition''],
      qp_category = ''Miscellaneous Income'', qp_confidence = 0.90\<rparr>,
    \<lparr>qp_keywords = [''stock sale'', ''equity sell'', ''share sell'', ''sell order'', ''profit booking''],
      qp_category = ''Stock Sale'', qp_confidence = 0.95\<rparr>,
    \<lparr>qp_keywords = [''mf redemption'', ''mutual fund redemption'', ''fund withdrawal'',
        ''sip withdrawal''],
      qp_category = ''Mutual Fund Redemption'', qp_confidence = 0.95\<rparr>,
    \<lparr>qp_keywords = [''ppf'', ''epf contribution'', ''nps'', ''fixed deposit'', ''fd'', ''gold purchase'',
        ''crypto purchase''],
      qp_category = ''PPF Contribution'', qp_confidence = 0.90\<rparr>,
    \<lparr>qp_keywords = [''dividend'', ''divd'', ''tcs dividend'', ''infosys dividend'', ''reliance dividend''],
      qp_category = ''Dividend Income'', qp_confidence = 0.95\<rparr>,
    \<lparr>qp_keywords = [''capital gain'', ''ltcg'', ''stcg'', ''profit from sale''],
      qp_category = ''Capital Gains'', qp_confidence = 0.95\<rparr>,
    \<lparr>qp_keywords = [''crop sales'', ''harvest'', ''farm produce'', ''agricultural income'',
        ''farm revenue''],
      qp_category = ''Crop Sales'', qp_confidence = 0.95\<rparr>,
    \<lparr>qp_keywords = [''livestock'', ''cattle sale'', ''milk'', ''dairy'', ''poultry''],
      qp_category = ''Livestock Income'', qp_confidence = 0.95\<rparr>,
    \<lparr>qp_keywords = [''farm rent'', ''land lease'', ''agricultural rent''],
      qp_category = ''Farm Rental Income'', qp_confidence = 0.95\<rparr>,
    \<lparr>qp_keywords = [''subsidy'', ''agricultural subsidy'', ''govt subsidy'', ''crop insurance''],
      qp_category = ''Agricultural Subsidies'', qp_confidence = 0.95\<rparr>,
    \<lparr>qp_keywords = [''seeds'', ''fertilizer'', ''pesticide'', ''farm labor'', ''irrigation''],
      qp_category = ''Seeds & Fertilizers'', qp_confidence = 0.90\<rparr>,
    \<lparr>qp_keywords = [''tractor'', ''farm equipment'', ''harvester'', ''plough''],
      qp_category = ''Farm Equipment Purchase'', qp_confidence = 0.90\<rparr>,
    \<lparr>qp_keywords = [''bore well'', ''water pump'', ''drip irrigation'', ''sprinkler''],
      qp_category = ''Irrigation System'', qp_confidence = 0.90\<rparr>,
    \<lparr>qp_keywords = [''veterinary'', ''animal feed'', ''cattle feed'', ''fodder''],
      qp_category = ''Veterinary Services'', qp_confidence = 0.90\<rparr>]"

definition keywordHit :: "string \<Rightarrow> string \<Rightarrow> string \<Rightarrow> bool" where
  "keywordHit desc merch keyword = (includesStr desc keyword \<or> includesStr merch keyword)"

definition hasMatch :: "string \<Rightarrow> string \<Rightarrow> quickPattern \<Rightarrow> bool" where
  \<comment> \<open>\<open>pattern.keywords.some(...)\<close>\<close>
  "hasMatch desc merch pattern = list_ex (keywordHit desc merch) (qp_keywords pattern)"

definition nameOverlap :: "string \<Rightarrow> string \<Rightarrow> bool" where
  \<comment> \<open>substring in either direction, ignoring case\<close>
  "nameOverlap a b =
     (includesStr (toLowerCase a) (toLowerCase b) \<or> includesStr (toLowerCase b) (toLowerCase a))"

definition matchingCategory :: "string list \<Rightarrow> quickPattern \<Rightarrow> string option" where
  \<comment> \<open>the available name the rule resolves to; \<open>if (matchingCategory)\<close> takes an empty
      name found by \<open>find\<close> as no name\<close>
  "matchingCategory availableCategories pattern =
     (case findFirst (\<lambda>cat. nameOverlap cat (qp_category pattern)) availableCategories of
        None \<Rightarrow> None
      | Some cat \<Rightarrow> if cat = [] then None else Some cat)"

definition quickReasoning :: "string \<Rightarrow> string \<Rightarrow> quickPattern \<Rightarrow> string" where
  "quickReasoning desc merch pattern =
     ''Quick match based on keyword: '' @
       (case findFirst (keywordHit desc merch) (qp_keywords pattern) of
          None \<Rightarrow> ''undefined'' | Some k \<Rightarrow> k)"

definition quickSuggestion :: "string \<Rightarrow> string \<Rightarrow> string \<Rightarrow> quickPattern \<Rightarrow> categorySuggestion" where
  "quickSuggestion desc merch cat pattern =
     \<lparr>category = cat, confidence = Num (qp_confidence pattern),
      reasoning = quickReasoning desc merch pattern\<rparr>"

fun quickLoop :: "string \<Rightarrow> string \<Rightarrow> string list \<Rightarrow> quickPattern list \<Rightarrow> categorySuggestion option" where
  "quickLoop desc merch availableCategories [] = None"
| "quickLoop desc merch availableCategories (pattern # rest) =
     (if hasMatch desc merch pattern
      then (case matchingCategory availableCategories pattern of
              Some cat \<Rightarrow> Some (quickSuggestion desc merch cat pattern)
            | None \<Rightarrow> quickLoop desc merch availableCategories rest)
      else quickLoop desc merch availableCategories rest)"

definition quickCategorize :: "string \<Rightarrow> string option \<Rightarrow> string list \<Rightarrow> categorySuggestion option" where
  "quickCategorize description merchant availableCategories =
     quickLoop (toLowerCase description)
       (orElse (map_option toLowerCase merchant) []) availableCategories quickPatterns"

definition firstOrUncategorized :: "string list \<Rightarrow> string" where
  \<comment> \<open>\<open>availableCategories[0] || 'Uncategorized'\<close>\<close>
  "firstOrUncategorized availableCategories =
     orElse (case availableCategories of [] \<Rightarrow> None | c # _ \<Rightarrow> Some c) ''Uncategorized''"

definition findClosestCategory :: "string option \<Rightarrow> string list \<Rightarrow> error + string" where
  \<comment> \<open>\<open>suggestedCategory\<close> is \<open>None\<close> when the parsed value is not a string:
      \<open>suggestedCategory.toLowerCase()\<close> then throws a TypeError\<close>
  "findClosestCategory suggestedCategory availableCategories =
     (case suggestedCategory of
        None \<Rightarrow> Inl TypeError
      | Some suggested \<Rightarrow>
         (let normalized = trim (toLowerCase suggested) in
          (case findFirst (\<lambda>cat. toLowerCase cat = normalized) availableCategories of
             Some (x # xs) \<Rightarrow> Inr (x # xs)
           | _ \<Rightarrow>
              (case findFirst (\<lambda>cat. includesStr (toLowerCase cat) normalized
                                     \<or> includesStr normalized (toLowerCase cat))
                      availableCategories of
                 Some (x # xs) \<Rightarrow> Inr (x # xs)
               | _ \<Rightarrow> Inr (firstOrUncategorized availableCategories)))))"

text \<open>
  A field of the parsed JSON object as \<open>parsed.confidence || 0.5\<close> and \<open>Math.min\<close> see
  it: absent, \<open>null\<close>, a number, or any other value (boolean, string, array, object),
  given by its truthiness and its conversion to a number.
\<close>

datatype jsField = Absent | Null | Number real | Other bool jsnum

definition orDefault :: "jsField \<Rightarrow> real \<Rightarrow> jsnum" where
  \<comment> \<open>\<open>v || d\<close> as \<open>Math.min\<close> reads it\<close>
  "orDefault v d =
     (case v of
        Absent \<Rightarrow> Num d
      | Null \<Rightarrow> Num d
      | Number r \<Rightarrow> if r = 0 then Num d else Num r
      | Other t n \<Rightarrow> if t then n else Num d)"

text \<open>
  The category and the reasoning of the parsed object are \<open>Some s\<close> when the field
  holds the string \<open>s\<close>. For the category \<open>None\<close> stands for every other value, on all
  of which \<open>toLowerCase\<close> throws; for the reasoning it stands for an absent or \<open>null\<close>
  field (a reasoning of another type is outside the model).
\<close>

record parsedJson =
  pj_category :: "string option"
  pj_confidence :: jsField
  pj_reasoning :: "string option"

text \<open>
  The text of the LLM response as \<open>parseCategorizationResponse\<close> sees it through
  \<open>response.match(/\{[\s\S]*\}/)\<close> and \<open>JSON.parse\<close>, which are library code.
\<close>

datatype llmText =
    NotAString
  | NoJsonObject
  | InvalidJson
  | JsonObject parsedJson

definition parseFallback :: "string list \<Rightarrow> categorySuggestion" where
  "parseFallback availableCategories =
     \<lparr>category = firstOrUncategorized availableCategories, confidence = Num 0.1,
      reasoning = ''Could not parse LLM response''\<rparr>"

definition parseCategorizationResponse :: "llmText \<Rightarrow> string list \<Rightarrow> categorySuggestion" where
  "parseCategorizationResponse response availableCategories =
     (case response of
        NotAString \<Rightarrow> parseFallback availableCategories
      | NoJsonObject \<Rightarrow> parseFallback availableCategories
      | InvalidJson \<Rightarrow> parseFallback availableCategories
      | JsonObject parsed \<Rightarrow>
         (case findClosestCategory (pj_category parsed) availableCategories of
            Inl e \<Rightarrow> parseFallback availableCategories
          | Inr normalizedCategory \<Rightarrow>
              \<lparr>category = normalizedCategory,
               confidence = mathMax 0 (mathMin 1 (orDefault (pj_confidence parsed) 0.5)),
               reasoning = orElse (pj_reasoning parsed) []\<rparr>))"

datatype llmOutcome = TransportFailure | Responded llmText

definition transportFallback :: "string list \<Rightarrow> categorySuggestion" where
  "transportFallback availableCategories =
     \<lparr>category = firstOrUncategorized availableCategories, confidence = Num 0.1,
      reasoning = ''Failed to get LLM categorization''\<rparr>"

definition llmCategorize :: "llmOutcome \<Rightarrow> string list \<Rightarrow> categorySuggestion" where
  \<comment> \<open>the \<open>try\<close> block of \<open>categorizeTransaction\<close>: a rejected \<open>fetch\<close>, a status that is
      not ok and a body that is not JSON all end in the \<open>catch\<close> branch\<close>
  "llmCategorize llm availableCategories =
     (case llm of
        TransportFailure \<Rightarrow> transportFallback availableCategories
      | Responded response \<Rightarrow> parseCategorizationResponse response availableCategories)"

definition matchTypeName :: "matchType \<Rightarrow> string" where
  "matchTypeName t =
     (case t of Exact \<Rightarrow> ''exact'' | Description \<Rightarrow> ''description''
      | Merchant \<Rightarrow> ''merchant'' | Keywords \<Rightarrow> ''keywords'')"

definition learnedSuggestion :: "patternMatch \<Rightarrow> categorySuggestion" where
  "learnedSuggestion m =
     \<lparr>category = m_categoryName m, confidence = Num (m_confidence m),
      reasoning = ''Learned from previous '' @ matchTypeName (m_matchType m) @ '' match''\<rparr>"

definition categorizeTransaction ::
  "bool \<Rightarrow> (string \<Rightarrow> string) \<Rightarrow> categoryPattern list \<Rightarrow> llmOutcome
     \<Rightarrow> string \<Rightarrow> string option \<Rightarrow> real \<Rightarrow> string list \<Rightarrow> string option
     \<Rightarrow> error + categorySuggestion" where
  \<comment> \<open>\<open>llm\<close> is what the external service does with the prompt built from the
      description, the merchant, the amount and the available names\<close>
  "categorizeTransaction up categoryName ps llm description merchant amount availableCategories userId =
     (case (case userId of
              None \<Rightarrow> Inr None
            | Some uid \<Rightarrow>
                if uid = [] then Inr None
                else findSimilarPattern up categoryName ps uid description merchant) of
        Inl e \<Rightarrow> Inl e
      | Inr learnedMatch \<Rightarrow>
         (case (case learnedMatch of
                  None \<Rightarrow> None
                | Some m \<Rightarrow> if m_confidence m > 0.8 then Some m else None) of
            Some m \<Rightarrow> Inr (learnedSuggestion m)
          | None \<Rightarrow>
             (case quickCategorize description merchant availableCategories of
                Some quickMatch \<Rightarrow> Inr quickMatch
              | None \<Rightarrow> Inr (llmCategorize llm availableCategories))))"

section \<open>Recategorization service\<close>

text \<open>
  The tables of transactions and categories are lists of rows. The classifier is a
  parameter with the signature of \<open>ollamaService.categorizeTransaction\<close>, so that what
  is proved holds for every behaviour of the pattern store and of the LLM. The queries
  of this service itself are taken to succeed.
\<close>

record transaction =
  txn_id :: string
  txn_userId :: string
  txn_description :: string
  txn_merchant :: "string option"
  txn_amount :: real
  txn_categoryId :: "string option"
  txn_llmCategorized :: bool
  txn_llmConfidence :: "jsnum option"

record categoryRow =
  cat_id :: string
  cat_name :: string
  cat_userId :: "string option"
  cat_isDefault :: bool

type_synonym classifier =
  "string \<Rightarrow> string option \<Rightarrow> real \<Rightarrow> string list \<Rightarrow> string option \<Rightarrow> error + categorySuggestion"

definition categoriesFor :: "categoryRow list \<Rightarrow> string \<Rightarrow> categoryRow list" where
  \<comment> \<open>\<open>where: { OR: [{ userId }, { isDefault: true }] }\<close>\<close>
  "categoriesFor cats userId = filter (\<lambda>c. cat_userId c = Some userId \<or> cat_isDefault c) cats"

definition updateTransaction :: "transaction list \<Rightarrow> string \<Rightarrow> (transaction \<Rightarrow> transaction) \<Rightarrow> transaction list" where
  \<comment> \<open>\<open>prisma.transaction.update({ where: { id }, data })\<close>\<close>
  "updateTransaction table tid f = map (\<lambda>r. if txn_id r = tid then f r else r) table"

definition applySuggestion :: "string \<Rightarrow> categorySuggestion \<Rightarrow> transaction \<Rightarrow> transaction" where
  "applySuggestion newCategoryId suggestion r =
     r\<lparr>txn_categoryId := Some newCategoryId, txn_llmCategorized := True,
       txn_llmConfidence := Some (confidence suggestion)\<rparr>"

definition recategorizeStep ::
  "classifier \<Rightarrow> categoryRow list \<Rightarrow> string \<Rightarrow> transaction \<Rightarrow> transaction list \<times> nat
     \<Rightarrow> transaction list \<times> nat" where
  \<comment> \<open>one turn of the loop of \<open>recategorizeAllTransactions\<close>; \<open>transaction\<close> is the row as
      read before the loop; an error of the classifier is logged and the turn ends\<close>
  "recategorizeStep classify categories userId transaction st =
     (case st of (table, updatedCount) \<Rightarrow>
       (case classify (txn_description transaction) (txn_merchant transaction)
               (abs (txn_amount transaction)) (map cat_name categories) (Some userId) of
          Inl e \<Rightarrow> (table, updatedCount)
        | Inr suggestion \<Rightarrow>
           (case findFirst (\<lambda>cat. cat_name cat = category suggestion) categories of
              None \<Rightarrow> (table, updatedCount)
            | Some newCategory \<Rightarrow>
                if Some (cat_id newCategory) \<noteq> txn_categoryId transaction
                   \<and> jsGreater (confidence suggestion) 0.7
                then (updateTransaction table (txn_id transaction)
                        (applySuggestion (cat_id newCategory) suggestion),
                      updatedCount + 1)
                else (table, updatedCount))))"

definition recategorizeAllTransactions ::
  "classifier \<Rightarrow> categoryRow list \<Rightarrow> transaction list \<Rightarrow> string
     \<Rightarrow> transaction list \<times> (nat \<times> nat)" where
  \<comment> \<open>returns the table of transactions and \<open>(updated, total)\<close>\<close>
  "recategorizeAllTransactions classify cats table userId =
     (let transactions = filter (\<lambda>t. txn_userId t = userId) table;
          categories = categoriesFor cats userId;
          (table', updatedCount) =
             fold (recategorizeStep classify categories userId) transactions (table, 0)
      in (table', (updatedCount, length transactions)))"

definition recategorizeTransaction ::
  "classifier \<Rightarrow> categoryRow list \<Rightarrow> transaction list \<Rightarrow> string
     \<Rightarrow> error + (transaction list \<times> bool)" where
  "recategorizeTransaction classify cats table transactionId =
     (case findFirst (\<lambda>t. txn_id t = transactionId) table of
        None \<Rightarrow> Inl NotFound
      | Some transaction \<Rightarrow>
         (let categories = categoriesFor cats (txn_userId transaction) in
          (case classify (txn_description transaction) (txn_merchant transaction)
                  (abs (txn_amount transaction)) (map cat_name categories)
                  (Some (txn_userId transaction)) of
             Inl e \<Rightarrow> Inl e
           | Inr suggestion \<Rightarrow>
              (case findFirst (\<lambda>cat. cat_name cat = category suggestion) categories of
                 None \<Rightarrow> Inr (table, False)
               | Some newCategory \<Rightarrow>
                   if jsGreater (confidence suggestion) 0.7
                   then Inr (updateTransaction table transactionId
                               (applySuggestion (cat_id newCategory) suggestion), True)
                   else Inr (table, False)))))"

section \<open>Manual correction route (learning routes)\<close>

datatype response = Response nat string

definition manualCorrection :: "string \<Rightarrow> transaction \<Rightarrow> transaction" where
  "manualCorrection categoryId r =
     r\<lparr>txn_categoryId := Some categoryId, txn_llmCategorized := False,
       txn_llmConfidence := None\<rparr>"

definition putCategory ::
  "bool \<Rightarrow> bool \<Rightarrow> nat \<Rightarrow> categoryRow list \<Rightarrow> transaction list \<times> categoryPattern list
     \<Rightarrow> string \<Rightarrow> string \<Rightarrow> string option
     \<Rightarrow> response \<times> (transaction list \<times> categoryPattern list)" where
  \<comment> \<open>\<open>PUT /:id/category\<close> for the authenticated user \<open>userId\<close>. \<open>up\<close>: the queries of
      the route itself answer (otherwise the first one throws and the handler answers
      500); \<open>learnUp\<close>: the queries of the learning service, which holds a Prisma client
      of its own, answer\<close>
  "putCategory up learnUp now cats st userId transactionId categoryId =
     (case st of (table, ps) \<Rightarrow>
       (case categoryId of
          None \<Rightarrow> (Response 400 ''categoryId is required'', st)
        | Some cid \<Rightarrow>
           if cid = [] then (Response 400 ''categoryId is required'', st)
           else if \<not> up then (Response 500 ''Failed to update category'', st)
           else
            (case findFirst (\<lambda>t. txn_id t = transactionId \<and> txn_userId t = userId) table of
               None \<Rightarrow> (Response 404 ''Transaction not found'', st)
             | Some transaction \<Rightarrow>
                (case findFirst (\<lambda>c. cat_id c = cid
                                     \<and> (cat_userId c = Some userId \<or> cat_isDefault c)) cats of
                   None \<Rightarrow> (Response 400 ''Invalid category'', st)
                 | Some cat \<Rightarrow>
                     (Response 200 ''Transaction category updated and learned for future use'',
                      (updateTransaction table transactionId (manualCorrection cid),
                       recordUserCorrection learnUp now ps userId
                         (txn_description transaction) (txn_merchant transaction) cid 1.0))))))"

section \<open>Asset side effects\<close>

record asset =
  ast_userId :: string
  ast_name :: string
  ast_category :: string
  ast_subCategory :: "string option"
  ast_currentValue :: real
  ast_purchaseValue :: real
  ast_purchaseDate :: string
  ast_quantity :: "real option"
  ast_description :: string
  ast_isActive :: bool
  ast_lastUpdated :: nat

record assetInfo =
  ai_category :: string
  ai_subCategory :: "string option"
  ai_isSale :: bool

text \<open>
  The mapping is read with \<open>assetCategoryMapping[categoryName]\<close>; the names of the
  properties that every JavaScript object inherits are not names of categories and are
  outside the model. The queries of the handler are taken to succeed (an error is
  logged and nothing more happens).
\<close>

definition assetCategoryMapping :: "(string \<times> assetInfo) list" where
  "assetCategoryMapping = [
     (''Stock Purchase'', \<lparr>ai_category = ''Stocks'', ai_subCategory = Some ''Individual Stocks'', ai_isSale = False\<rparr>),
     (''Mutual Fund Purchase'', \<lparr>ai_category = ''Mutual Funds'', ai_subCategory = Some ''Equity Funds'', ai_isSale = False\<rparr>),
     (''PPF Contribution'', \<lparr>ai_category = ''Fixed Deposits'', ai_subCategory = Some ''PPF'', ai_isSale = False\<rparr>),
     (''EPF Contribution'', \<lparr>ai_category = ''Fixed Deposits'', ai_subCategory = Some ''EPF'', ai_isSale = False\<rparr>),
     (''NPS Contribution'', \<lparr>ai_category = ''Fixed Deposits'', ai_subCategory = Some ''NPS'', ai_isSale = False\<rparr>),
     (''Gold Purchase'', \<lparr>ai_category = ''Precious Metals'', ai_subCategory = Some ''Gold'', ai_isSale = False\<rparr>),
     (''Real Estate Purchase'', \<lparr>ai_category = ''Real Estate'', ai_subCategory = Some ''Residential'', ai_isSale = False\<rparr>),
     (''Farm Equipment Purchase'', \<lparr>ai_category = ''Farm Assets'', ai_subCategory = Some ''Equipment'', ai_isSale = False\<rparr>),
     (''Livestock Purchase'', \<lparr>ai_category = ''Farm Assets'', ai_subCategory = Some ''Livestock'', ai_isSale = False\<rparr>),
     (''Asset Purchase'', \<lparr>ai_category = ''Other Assets'', ai_subCategory = Some ''Miscellaneous'', ai_isSale = False\<rparr>),
     (''Stock Sale'', \<lparr>ai_category = ''Stocks'', ai_subCategory = Some ''Individual Stocks'', ai_isSale = True\<rparr>),
     (''Mutual Fund Redemption'', \<lparr>ai_category = ''Mutual Funds'', ai_subCategory = Some ''Equity Funds'', ai_isSale = True\<rparr>),
     (''Asset Sale'', \<lparr>ai_category = ''Other Assets'', ai_subCategory = Some ''Miscellaneous'', ai_isSale = True\<rparr>)]"

record assetTransaction =
  at_categoryName :: "string option"
  at_description :: "string option"
  at_merchant :: "string option"
  at_amount :: real
  at_date :: string

fun joinWith :: "string \<Rightarrow> string list \<Rightarrow> string" where
  "joinWith sep [] = []"
| "joinWith sep [w] = w"
| "joinWith sep (w # v # ws) = w @ sep @ joinWith sep (v # ws)"

definition assetNameOf :: "assetTransaction \<Rightarrow> string" where
  "assetNameOf t =
     (let description = orElse (at_description t) [];
          merchant = orElse (at_merchant t) []
      in orElse (Some (orElse (Some merchant)
                   (joinWith '' '' (take 3 (split (CHR '' '') description)))))
           ''Unknown Asset'')"

definition assetKey :: "string \<Rightarrow> string \<Rightarrow> assetInfo \<Rightarrow> asset \<Rightarrow> bool" where
  \<comment> \<open>the \<open>where\<close> clause of \<open>prisma.asset.findFirst\<close>\<close>
  "assetKey userId assetName info a =
     (ast_userId a = userId \<and> ast_name a = assetName
      \<and> ast_category a = ai_category info \<and> ast_subCategory a = ai_subCategory info)"

definition sellAsset :: "nat \<Rightarrow> real \<Rightarrow> asset \<Rightarrow> asset" where
  "sellAsset now amount existingAsset =
     (let newValue = max 0 (ast_currentValue existingAsset - abs amount)
      in existingAsset\<lparr>ast_currentValue := newValue, ast_isActive := (newValue > 0),
                       ast_lastUpdated := now\<rparr>)"

definition buyMore :: "nat \<Rightarrow> real \<Rightarrow> asset \<Rightarrow> asset" where
  "buyMore now amount existingAsset =
     existingAsset\<lparr>ast_currentValue := ast_currentValue existingAsset + abs amount,
                    ast_quantity :=
                      Some ((case ast_quantity existingAsset of None \<Rightarrow> 0 | Some q \<Rightarrow> q) + 1),
                    ast_lastUpdated := now\<rparr>"

definition newAsset :: "nat \<Rightarrow> string \<Rightarrow> string \<Rightarrow> assetInfo \<Rightarrow> assetTransaction \<Rightarrow> asset" where
  "newAsset now userId assetName info t =
     \<lparr>ast_userId = userId, ast_name = assetName, ast_category = ai_category info,
      ast_subCategory = ai_subCategory info, ast_currentValue = abs (at_amount t),
      ast_purchaseValue = abs (at_amount t), ast_purchaseDate = at_date t,
      ast_quantity = Some 1,
      ast_description = ''Auto-created from transaction: '' @ orElse (at_description t) [],
      ast_isActive = True, ast_lastUpdated = now\<rparr>"

definition handleAssetTransaction :: "nat \<Rightarrow> asset list \<Rightarrow> assetTransaction \<Rightarrow> string \<Rightarrow> asset list" where
  \<comment> \<open>the table of assets after the call; a row is identified by its position\<close>
  "handleAssetTransaction now assets t userId =
     (case at_categoryName t of
        None \<Rightarrow> assets
      | Some categoryName \<Rightarrow>
         if categoryName = [] then assets
         else
          (case map_of assetCategoryMapping categoryName of
             None \<Rightarrow> assets
           | Some info \<Rightarrow>
              (let assetName = assetNameOf t in
               (case findIndex (assetKey userId assetName info) assets of
                  Some i \<Rightarrow>
                    if ai_isSale info
                    then assets[i := sellAsset now (at_amount t) (assets ! i)]
                    else assets[i := buyMore now (at_amount t) (assets ! i)]
                | None \<Rightarrow>
                    if \<not> ai_isSale info
                    then assets @ [newAsset now userId assetName info t]
                    else assets))))"

section \<open>Date parsing (CSV parser service)\<close>

text \<open>
  \<open>Date y m d\<close> is the call \<open>new Date(y, m, d)\<close> with a zero-based month index. The
  constructor's own carrying of days and months beyond the calendar is not modelled;
  for a day and a month of the calendar the call denotes that day.
\<close>

datatype jsDate = Date int int int

definition parseInt :: "string \<Rightarrow> int" where
  \<comment> \<open>\<open>parseInt\<close> on a string of decimal digits\<close>
  "parseInt ds = foldl (\<lambda>n c. 10 * n + (int (of_char c) - 48)) 0 ds"

definition MONTH_MAP :: "(string \<times> int) list" where
  "MONTH_MAP = [(''jan'', 0), (''feb'', 1), (''mar'', 2), (''apr'', 3), (''may'', 4), (''jun'', 5),
     (''jul'', 6), (''aug'', 7), (''sep'', 8), (''oct'', 9), (''nov'', 10), (''dec'', 11)]"

definition digitRun :: "nat \<Rightarrow> nat \<Rightarrow> string \<Rightarrow> (string \<times> string) option" where
  \<comment> \<open>\<open>(\d{lo,hi})\<close> in front of something that is not a digit: the whole run of digits\<close>
  "digitRun lo hi s =
     (let d = takeWhile isDigit s
      in if lo \<le> length d \<and> length d \<le> hi then Some (d, drop (length d) s) else None)"

definition digitsExact :: "nat \<Rightarrow> string \<Rightarrow> (string \<times> string) option" where
  \<comment> \<open>\<open>(\d{n})\<close>, whatever follows\<close>
  "digitsExact n s =
     (if length (take n s) = n \<and> list_all isDigit (take n s) then Some (take n s, drop n s)
      else None)"

definition lettersExact :: "nat \<Rightarrow> string \<Rightarrow> (string \<times> string) option" where
  \<comment> \<open>\<open>([A-Za-z]{n})\<close>\<close>
  "lettersExact n s =
     (if length (take n s) = n \<and> list_all (\<lambda>c. isUpper c \<or> isLower c) (take n s)
      then Some (take n s, drop n s) else None)"

definition lit :: "char \<Rightarrow> string \<Rightarrow> string option" where
  "lit c s = (case s of [] \<Rightarrow> None | x # r \<Rightarrow> if x = c then Some r else None)"

definition spaces1 :: "string \<Rightarrow> string option" where
  \<comment> \<open>\<open>\s+\<close>\<close>
  "spaces1 s = (case s of [] \<Rightarrow> None | x # r \<Rightarrow> if isSpace x then Some (dropWhile isSpace r) else None)"

definition atEnd :: "string \<Rightarrow> 'a \<Rightarrow> 'a option" where
  \<comment> \<open>\<open>$\<close>\<close>
  "atEnd s v = (if s = [] then Some v else None)"

definition matchDDMMMYYYY :: "string \<Rightarrow> (string \<times> string \<times> string) option" where
  \<comment> \<open>\<open>/^\s*(\d{1,2})\s+([A-Za-z]{3})\s+(\d{4})\s*$/\<close>\<close>
  "matchDDMMMYYYY s =
     (case digitRun 1 2 (dropWhile isSpace s) of None \<Rightarrow> None | Some (day, r1) \<Rightarrow>
      (case spaces1 r1 of None \<Rightarrow> None | Some r2 \<Rightarrow>
       (case lettersExact 3 r2 of None \<Rightarrow> None | Some (monthStr, r3) \<Rightarrow>
        (case spaces1 r3 of None \<Rightarrow> None | Some r4 \<Rightarrow>
         (case digitsExact 4 r4 of None \<Rightarrow> None | Some (year, r5) \<Rightarrow>
            atEnd (dropWhile isSpace r5) (day, monthStr, year))))))"

definition matchDDMMYY :: "string \<Rightarrow> (string \<times> string \<times> string) option" where
  \<comment> \<open>\<open>/^\s*(\d{1,2})\/(\d{1,2})\/(\d{2})\s*/\<close>: no \<open>$\<close>, so anything may follow the
      two digits of the year\<close>
  "matchDDMMYY s =
     (case digitRun 1 2 (dropWhile isSpace s) of None \<Rightarrow> None | Some (day, r1) \<Rightarrow>
      (case lit (CHR ''/'') r1 of None \<Rightarrow> None | Some r2 \<Rightarrow>
       (case digitRun 1 2 r2 of None \<Rightarrow> None | Some (month, r3) \<Rightarrow>
        (case lit (CHR ''/'') r3 of None \<Rightarrow> None | Some r4 \<Rightarrow>
         (case digitsExact 2 r4 of None \<Rightarrow> None | Some (year, r5) \<Rightarrow>
            Some (day, month, year))))))"

definition matchShortShortLong :: "char \<Rightarrow> string \<Rightarrow> (string \<times> string \<times> string) option" where
  \<comment> \<open>\<open>/^(\d{1,2})\/(\d{1,2})\/(\d{4})$/\<close> and \<open>/^(\d{1,2})-(\d{1,2})-(\d{4})$/\<close>\<close>
  "matchShortShortLong sep s =
     (case digitRun 1 2 s of None \<Rightarrow> None | Some (p1, r1) \<Rightarrow>
      (case lit sep r1 of None \<Rightarrow> None | Some r2 \<Rightarrow>
       (case digitRun 1 2 r2 of None \<Rightarrow> None | Some (p2, r3) \<Rightarrow>
        (case lit sep r3 of None \<Rightarrow> None | Some r4 \<Rightarrow>
         (case digitsExact 4 r4 of None \<Rightarrow> None | Some (p3, r5) \<Rightarrow>
            atEnd r5 (p1, p2, p3))))))"

definition matchLongShortShort :: "char \<Rightarrow> string \<Rightarrow> (string \<times> string \<times> string) option" where
  \<comment> \<open>\<open>/^(\d{4})-(\d{1,2})-(\d{1,2})$/\<close>\<close>
  "matchLongShortShort sep s =
     (case digitsExact 4 s of None \<Rightarrow> None | Some (p1, r1) \<Rightarrow>
      (case lit sep r1 of None \<Rightarrow> None | Some r2 \<Rightarrow>
       (case digitRun 1 2 r2 of None \<Rightarrow> None | Some (p2, r3) \<Rightarrow>
        (case lit sep r3 of None \<Rightarrow> None | Some r4 \<Rightarrow>
         (case digitRun 1 2 r4 of None \<Rightarrow> None | Some (p3, r5) \<Rightarrow>
            atEnd r5 (p1, p2, p3))))))"

definition formats :: "(string \<Rightarrow> (string \<times> string \<times> string) option) list" where
  "formats = [matchShortShortLong (CHR ''/''), matchShortShortLong (CHR ''/''),
              matchLongShortShort (CHR ''-''), matchShortShortLong (CHR ''-'')]"

definition dateValid :: "jsDate \<Rightarrow> bool" where
  \<comment> \<open>\<open>!isNaN(attempt.getTime())\<close>: a Date is invalid only when its time leaves the
      range of about 270000 years around 1970, which numbers of four digits never do\<close>
  "dateValid d = (case d of Date y m dd \<Rightarrow> abs y < 10000 \<and> abs m < 10000 \<and> abs dd < 10000)"

definition interpretParts :: "string \<times> string \<times> string \<Rightarrow> jsDate option" where
  "interpretParts ps =
     (case ps of (p1, p2, p3) \<Rightarrow>
        if parseInt p1 \<le> 31 \<and> parseInt p2 \<le> 12 \<and> parseInt p3 > 31
        then Some (Date (parseInt p3) (parseInt p2 - 1) (parseInt p1))
        else findFirst dateValid
               [Date (parseInt p3) (parseInt p2 - 1) (parseInt p1),
                Date (parseInt p3) (parseInt p1 - 1) (parseInt p2),
                Date (parseInt p1) (parseInt p2 - 1) (parseInt p3)])"

fun tryFormats :: "(string \<Rightarrow> (string \<times> string \<times> string) option) list \<Rightarrow> string \<Rightarrow> jsDate option" where
  "tryFormats [] s = None"
| "tryFormats (format # rest) s =
     (case format s of
        None \<Rightarrow> tryFormats rest s
      | Some ps \<Rightarrow> (case interpretParts ps of Some d \<Rightarrow> Some d | None \<Rightarrow> tryFormats rest s))"

definition parseDate :: "string \<Rightarrow> jsDate option" where
  "parseDate dateStr =
     (let cleanedDate = filter (\<lambda>c. c \<noteq> CHR '','') (trim dateStr) in
      (case (case matchDDMMMYYYY cleanedDate of
               None \<Rightarrow> None
             | Some (day, monthStr, year) \<Rightarrow>
                 (case map_of MONTH_MAP (toLowerCase monthStr) of
                    None \<Rightarrow> None
                  | Some monthIndex \<Rightarrow> Some (Date (parseInt year) monthIndex (parseInt day)))) of
         Some d \<Rightarrow> Some d
       | None \<Rightarrow>
          (case matchDDMMYY cleanedDate of
             Some (day, month, year) \<Rightarrow>
               Some (Date (if parseInt year < 50 then 2000 + parseInt year
                           else 1900 + parseInt year)
                          (parseInt month - 1) (parseInt day))
           | None \<Rightarrow> tryFormats formats cleanedDate)))"

text \<open>
  The rows of a CSV file: \<open>parseCSV\<close> maps \<open>parseRow\<close> over them and keeps the rows
  that gave a transaction. Of \<open>parseRow\<close> the reading of the date is modelled; what it
  does with the other columns is the parameter \<open>rest\<close>, which may drop the row too.
\<close>

definition parseRow :: "('row \<Rightarrow> string option) \<Rightarrow> ('row \<Rightarrow> jsDate \<Rightarrow> 't option) \<Rightarrow> 'row \<Rightarrow> 't option" where
  "parseRow dateColumn rest row =
     (case dateColumn row of
        None \<Rightarrow> None
      | Some dateValue \<Rightarrow>
          if dateValue = [] then None
          else (case parseDate dateValue of None \<Rightarrow> None | Some date \<Rightarrow> rest row date))"

definition parseRows :: "('row \<Rightarrow> string option) \<Rightarrow> ('row \<Rightarrow> jsDate \<Rightarrow> 't option) \<Rightarrow> 'row list \<Rightarrow> 't list" where
  \<comment> \<open>\<open>data.map(row => this.parseRow(row, format, userSource)).filter(Boolean)\<close>\<close>
  "parseRows dateColumn rest rows = List.map_filter (parseRow dateColumn rest) rows"

section \<open>Example data\<close>

definition swiggyPattern :: categoryPattern where
  "swiggyPattern =
     \<lparr>pat_userId = ''u1'', pat_description = ''UPI-SWIGGY ORDER 123'', pat_merchant = None,
      pat_categoryId = ''c1'', pat_confidence = 0.9, pat_isUserCorrection = True,
      pat_updatedAt = 1\<rparr>"

definition categoryNames :: "string \<Rightarrow> string" where
  \<comment> \<open>the names of the categories of the examples, by id\<close>
  "categoryNames cid = (if cid = ''salary'' then ''Salary'' else ''Groceries & Food'')"

definition acmeRow :: "string option \<Rightarrow> real \<Rightarrow> nat \<Rightarrow> categoryPattern" where
  "acmeRow merchant conf time =
     \<lparr>pat_userId = ''u1'', pat_description = ''ACME CORP PAYMENT'', pat_merchant = merchant,
      pat_categoryId = ''salary'', pat_confidence = conf, pat_isUserCorrection = True,
      pat_updatedAt = time\<rparr>"

definition lunchPattern :: "real \<Rightarrow> categoryPattern" where
  "lunchPattern conf =
     \<lparr>pat_userId = ''u1'', pat_description = ''Lunch order'', pat_merchant = Some ''Swiggy'',
      pat_categoryId = ''c1'', pat_confidence = conf, pat_isUserCorrection = True,
      pat_updatedAt = 1\<rparr>"

definition swiggyTransaction :: transaction where
  "swiggyTransaction =
     \<lparr>txn_id = ''t1'', txn_userId = ''u1'', txn_description = ''UPI-SWIGGY-1234567890-paytm'',
      txn_merchant = None, txn_amount = - 250, txn_categoryId = Some ''c1'',
      txn_llmCategorized = False, txn_llmConfidence = None\<rparr>"

definition foodCategory :: categoryRow where
  "foodCategory =
     \<lparr>cat_id = ''c1'', cat_name = ''Groceries & Food'', cat_userId = None, cat_isDefault = True\<rparr>"

definition offlineClassifier :: classifier where
  \<comment> \<open>the classifier with an empty pattern store and an LLM that cannot be reached\<close>
  "offlineClassifier = categorizeTransaction True categoryNames [] TransportFailure"

definition stockBuy :: assetTransaction where
  "stockBuy = \<lparr>at_categoryName = Some ''Stock Purchase'', at_description = Some ''ZERODHA BROKING NSE'',
     at_merchant = Some ''Zerodha'', at_amount = 10000, at_date = ''2023-01-15''\<rparr>"

definition stockSale :: "real \<Rightarrow> assetTransaction" where
  "stockSale amount = \<lparr>at_categoryName = Some ''Stock Sale'', at_description = Some ''ZERODHA SELL ORDER'',
     at_merchant = Some ''Zerodha'', at_amount = amount, at_date = ''2023-02-01''\<rparr>"

definition stocksInfo :: assetInfo where
  "stocksInfo = \<lparr>ai_category = ''Stocks'', ai_subCategory = Some ''Individual Stocks'', ai_isSale = False\<rparr>"

definition zerodhaAsset :: "real \<Rightarrow> bool \<Rightarrow> nat \<Rightarrow> asset" where
  "zerodhaAsset v active time =
     \<lparr>ast_userId = ''u1'', ast_name = ''Zerodha'', ast_category = ''Stocks'',
      ast_subCategory = Some ''Individual Stocks'', ast_currentValue = v,
      ast_purchaseValue = 10000, ast_purchaseDate = ''2023-01-15'', ast_quantity = Some 1,
      ast_description = ''Auto-created from transaction: ZERODHA BROKING NSE'',
      ast_isActive = active, ast_lastUpdated = time\<rparr>"

definition autoTransaction :: transaction where
  "autoTransaction =
     \<lparr>txn_id = ''t1'', txn_userId = ''u1'', txn_description = ''ACME CORP PAYMENT'',
      txn_merchant = None, txn_amount = 5000, txn_categoryId = Some ''c1'',
      txn_llmCategorized = True, txn_llmConfidence = Some (Num 0.6)\<rparr>"

definition salaryCategory :: categoryRow where
  "salaryCategory =
     \<lparr>cat_id = ''salary'', cat_name = ''Salary'', cat_userId = Some ''u1'', cat_isDefault = False\<rparr>"

section \<open>Searching lists\<close>

lemma findFirst_None_iff: "findFirst P xs = None \<longleftrightarrow> (\<forall>x \<in> set xs. \<not> P x)"
  by (induction xs) auto


lemma findFirst_split:
  "findFirst P xs = Some x \<Longrightarrow> \<exists>pre post. xs = pre @ x # post \<and> (\<forall>y \<in> set pre. \<not> P y)"
proof (induction xs)
  case Nil
  then show ?case by simp
next
  case (Cons a xs)
  show ?case
  proof (cases "P a")
    case True
    with Cons.prems have "a = x" by simp
    then have "a # xs = [] @ x # xs \<and> (\<forall>y \<in> set []. \<not> P y)" by simp
    then show ?thesis by blast
  next
    case False
    with Cons.prems have "findFirst P xs = Some x" by simp
    from Cons.IH [OF this] obtain pre post
      where "xs = pre @ x # post" "\<forall>y \<in> set pre. \<not> P y" by blast
    with False have "a # xs = (a # pre) @ x # post \<and> (\<forall>y \<in> set (a # pre). \<not> P y)" by simp
    then show ?thesis by blast
  qed
qed

lemma findFirst_append:
  "\<forall>y \<in> set pre. \<not> P y \<Longrightarrow> P x \<Longrightarrow> findFirst P (pre @ x # post) = Some x"
  by (induction pre) auto

lemma findIndex_None_iff: "findIndex P xs = None \<longleftrightarrow> (\<forall>x \<in> set xs. \<not> P x)"
  by (induction xs) (auto split: option.splits)

lemma findIndex_SomeD:
  "findIndex P xs = Some i \<Longrightarrow> i < length xs \<and> P (xs ! i) \<and> (\<forall>j < i. \<not> P (xs ! j))"
proof (induction xs arbitrary: i)
  case Nil
  then show ?case by simp
next
  case (Cons a xs)
  show ?case
  proof (cases "P a")
    case True
    with Cons.prems show ?thesis by simp
  next
    case False
    with Cons.prems obtain k where k: "findIndex P xs = Some k" "i = Suc k"
      by (auto split: option.splits)
    from Cons.IH [OF k(1)] have ih: "k < length xs" "P (xs ! k)" "\<forall>j < k. \<not> P (xs ! j)"
      by simp_all
    have "\<forall>j < Suc k. \<not> P ((a # xs) ! j)"
    proof (intro allI impI)
      fix j assume "j < Suc k"
      then show "\<not> P ((a # xs) ! j)" using False ih(3) by (cases j) simp_all
    qed
    with ih k show ?thesis by simp
  qed
qed

lemma firstByConfidence_None_iff: "firstByConfidence ps = None \<longleftrightarrow> ps = []"
  by (induction ps) (auto split: option.splits)

lemma firstByConfidence_SomeD:
  "firstByConfidence ps = Some p \<Longrightarrow>
     p \<in> set ps \<and> (\<forall>q \<in> set ps. pat_confidence q \<le> pat_confidence p)"
proof (induction ps arbitrary: p)
  case Nil
  then show ?case by simp
next
  case (Cons a ps)
  show ?case
  proof (cases "firstByConfidence ps")
    case None
    then have "ps = []" by (simp add: firstByConfidence_None_iff)
    with Cons.prems show ?thesis by simp
  next
    case (Some q)
    from Cons.IH [OF Some] have ih: "q \<in> set ps" "\<forall>r \<in> set ps. pat_confidence r \<le> pat_confidence q"
      by simp_all
    show ?thesis
    proof (cases "pat_confidence a < pat_confidence q")
      case True
      with Some Cons.prems have "p = q" by simp
      with ih True show ?thesis by auto
    next
      case False
      with Some Cons.prems have "p = a" by simp
      with ih False show ?thesis by fastforce
    qed
  qed
qed

lemma findIndex_append_last:
  "\<forall>x \<in> set xs. \<not> P x \<Longrightarrow> P y \<Longrightarrow> findIndex P (xs @ [y]) = Some (length xs)"
  by (induction xs) auto

lemma firstWhere_SomeD:
  "firstWhere matches raises rows = Inr (Some i) \<Longrightarrow> i < length rows \<and> matches (rows ! i)"
proof (induction rows arbitrary: i)
  case Nil
  then show ?case by simp
next
  case (Cons r rows)
  show ?case
  proof (cases "matches r")
    case True
    with Cons.prems show ?thesis by (simp split: if_splits)
  next
    case False
    with Cons.prems obtain k where k: "firstWhere matches raises rows = Inr (Some k)" "i = Suc k"
      by (auto split: if_splits sum.splits option.splits)
    from Cons.IH [OF k(1)] k(2) show ?thesis by simp
  qed
qed

lemma recordUserCorrection_existing:
  assumes "firstWhere (keyMatch userId description merchant) (keyRaises userId description) ps
             = Inr (Some i)"
  shows "recordUserCorrection True now ps userId description merchant categoryId c =
           ps[i := (ps ! i)\<lparr>pat_categoryId := categoryId,
                            pat_confidence := max c (pat_confidence (ps ! i)),
                            pat_isUserCorrection := True, pat_updatedAt := now\<rparr>]"
  using assms by (simp add: recordUserCorrection_def)

section \<open>Patterns of \<open>ILIKE\<close> without special characters\<close>

lemma matchLoop_plain:
  "plainText p \<Longrightarrow> (matchLoop t p = LikeTrue) = (t = p) \<and> matchLoop t p \<noteq> LikeError"
proof (induction p arbitrary: t)
  case Nil
  then show ?case by (cases t) auto
next
  case (Cons c p)
  then have c: "c \<noteq> CHR ''%''" "c \<noteq> CHR ''_''" "c \<noteq> CHR 0x5C" and p: "plainText p"
    by (simp_all add: plainText_def plainChar_def)
  show ?case
  proof (cases t)
    case Nil
    with c show ?thesis by simp
  next
    case (Cons x t')
    with c Cons.IH [OF p, of t'] show ?thesis by auto
  qed
qed

lemma matchLoop_plain_prefix:
  "plainText q \<Longrightarrow>
     (matchLoop t (q @ ''%'') = LikeTrue) = startsWith t q
     \<and> matchLoop t (q @ ''%'') \<noteq> LikeError
     \<and> (matchLoop t (q @ ''%'') = LikeAbort \<longrightarrow> length t < length q)"
proof (induction q arbitrary: t)
  case Nil
  then show ?case by (cases t) (auto simp: startsWith_def)
next
  case (Cons c q)
  then have c: "c \<noteq> CHR ''%''" "c \<noteq> CHR ''_''" "c \<noteq> CHR 0x5C" and q: "plainText q"
    by (simp_all add: plainText_def plainChar_def)
  show ?case
  proof (cases t)
    case Nil
    with c show ?thesis by (simp add: startsWith_def)
  next
    case (Cons x t')
    with c Cons.IH [OF q, of t'] show ?thesis by (auto simp: startsWith_def)
  qed
qed

lemma includesStr_length: "includesStr t q \<Longrightarrow> length q \<le> length t"
  by (induction t) (auto simp: startsWith_def dest: arg_cong [where f = length])

lemma scanText_plain:
  assumes "plainText q" "q \<noteq> []"
  shows "(scanText (hd q) t (q @ ''%'') = LikeTrue) = includesStr t q
         \<and> scanText (hd q) t (q @ ''%'') \<noteq> LikeError"
proof (induction t)
  case Nil
  with assms show ?case by simp
next
  case (Cons x t)
  note M = matchLoop_plain_prefix [OF assms(1), of "x # t"]
  show ?case
  proof (cases "x = hd q")
    case False
    with assms(2) have "\<not> startsWith (x # t) q"
      by (cases q) (auto simp: startsWith_def)
    with False Cons show ?thesis by simp
  next
    case True
    show ?thesis
    proof (cases "matchLoop (x # t) (q @ ''%'')")
      case LikeTrue
      with M True show ?thesis by simp
    next
      case LikeFalse
      with M True Cons show ?thesis by simp
    next
      case LikeAbort
      with M have "length (x # t) < length q" by simp
      then have "\<not> includesStr (x # t) q" using includesStr_length by fastforce
      with LikeAbort True show ?thesis by simp
    next
      case LikeError
      with M show ?thesis by simp
    qed
  qed
qed

lemma MatchText_contains_plain:
  assumes "plainText q" "q \<noteq> []"
  shows "(MatchText t (''%'' @ q @ ''%'') = LikeTrue) = includesStr t q
         \<and> MatchText t (''%'' @ q @ ''%'') \<noteq> LikeError"
proof -
  obtain c q' where q: "q = c # q'" using assms(2) by (cases q) auto
  with assms(1) have c: "c \<noteq> CHR ''%''" "c \<noteq> CHR ''_''" "c \<noteq> CHR 0x5C"
    by (simp_all add: plainText_def plainChar_def)
  show ?thesis
  proof (cases t)
    case Nil
    with q c show ?thesis by (simp add: MatchText_def)
  next
    case (Cons x t')
    have "skipWild (x # t') (q @ ''%'') = Some (x # t', q @ ''%'')" using q c by simp
    moreover have "firstpat (q @ ''%'') = Some (hd q)" using q c by (simp add: firstpat_def)
    ultimately have "matchLoop (x # t') (CHR ''%'' # q @ ''%'')
                       = scanText (hd q) (x # t') (q @ ''%'')"
      using q by simp
    with scanText_plain [OF assms, of t] Cons q show ?thesis by (simp add: MatchText_def)
  qed
qed

lemma MatchText_plain:
  "plainText p \<Longrightarrow> (MatchText t p = LikeTrue) = (t = p) \<and> MatchText t p \<noteq> LikeError"
  using matchLoop_plain [of p t] by (auto simp: MatchText_def plainText_def plainChar_def)

lemma toLowerChar_plain: "plainChar (toLowerChar c) = plainChar c"
proof -
  have "of_char (char_of (of_char c + 32 :: nat)) = (of_char c + 32 :: nat)"
    if "(of_char c :: nat) \<le> 90"
    using that by (simp add: of_char_of)
  then show ?thesis
    unfolding toLowerChar_def plainChar_def Let_def
    by (auto dest!: arg_cong [where f = "of_char :: char \<Rightarrow> nat"])
qed

lemma toLowerCase_plain: "plainText (toLowerCase s) = plainText s"
  by (induction s) (simp_all add: plainText_def toLowerCase_def toLowerChar_plain)

lemma toLowerCase_percent: "toLowerCase (''%'' @ q @ ''%'') = ''%'' @ toLowerCase q @ ''%''"
  by (simp add: toLowerCase_def toLowerChar_def)

lemma ilike_plain:
  "plainText d \<Longrightarrow>
     (ilike v d = LikeTrue) = (toLowerCase v = toLowerCase d) \<and> ilike v d \<noteq> LikeError"
  using MatchText_plain [of "toLowerCase d" "toLowerCase v"]
  by (simp add: ilike_def toLowerCase_plain)

lemma ilike_contains_plain:
  assumes "plainText q" "q \<noteq> []"
  shows "(ilike v (''%'' @ q @ ''%'') = LikeTrue) = includesStr (toLowerCase v) (toLowerCase q)
         \<and> ilike v (''%'' @ q @ ''%'') \<noteq> LikeError"
proof -
  have "plainText (toLowerCase q)" "toLowerCase q \<noteq> []"
    using assms by (simp_all add: toLowerCase_plain) (simp add: toLowerCase_def)
  from MatchText_contains_plain [OF this, of "toLowerCase v"]
  show ?thesis unfolding ilike_def toLowerCase_percent by simp
qed

lemma keyMatch_plain:
  "plainText description \<Longrightarrow>
     keyMatch userId description merchant p =
       (pat_userId p = userId
        \<and> toLowerCase (pat_description p) = toLowerCase description
        \<and> pat_merchant p = orNull merchant)"
  by (simp add: keyMatch_def ilike_plain)

lemma keyRaises_plain: "plainText description \<Longrightarrow> \<not> keyRaises userId description p"
  by (simp add: keyRaises_def ilike_plain)

lemma merchantContains_plain:
  "plainText mq \<Longrightarrow> mq \<noteq> [] \<Longrightarrow>
     merchantContains userId mq p =
       (pat_userId p = userId
        \<and> (case pat_merchant p of None \<Rightarrow> False
            | Some stored \<Rightarrow> includesStr (toLowerCase stored) (toLowerCase mq)))"
  using ilike_contains_plain [of mq]
  by (auto simp: merchantContains_def split: option.splits)

lemma merchantRaises_plain: "plainText mq \<Longrightarrow> mq \<noteq> [] \<Longrightarrow> \<not> merchantRaises userId mq p"
  using ilike_contains_plain [of mq]
  by (auto simp: merchantRaises_def split: option.splits)

lemma firstWhere_no_raise:
  "\<forall>r \<in> set rows. \<not> raises r \<Longrightarrow> firstWhere matches raises rows = Inr (findIndex matches rows)"
  by (induction rows) (auto split: option.splits)

lemma allWhere_no_raise:
  "\<forall>r \<in> set rows. \<not> raises r \<Longrightarrow> allWhere matches raises rows = Inr (filter matches rows)"
  by (simp add: allWhere_def list_ex_iff)

lemma firstWhere_plain:
  "plainText description \<Longrightarrow>
     firstWhere (keyMatch userId description merchant) (keyRaises userId description) ps
       = Inr (findIndex (keyMatch userId description merchant) ps)"
  by (rule firstWhere_no_raise) (simp add: keyRaises_plain)

lemma allWhere_plain:
  "plainText description \<Longrightarrow>
     allWhere (keyMatch userId description merchant) (keyRaises userId description) ps
       = Inr (filter (keyMatch userId description merchant) ps)"
  by (rule allWhere_no_raise) (simp add: keyRaises_plain)

lemma allWhere_merchant_plain:
  "plainText mq \<Longrightarrow> mq \<noteq> [] \<Longrightarrow>
     allWhere (merchantContains userId mq) (merchantRaises userId mq) ps
       = Inr (filter (merchantContains userId mq) ps)"
  by (rule allWhere_no_raise) (simp add: merchantRaises_plain)

section \<open>Similarity of keyword lists\<close>

lemma calculateSimilarity_jaccard:
  assumes "words1 \<noteq> []" "words2 \<noteq> []"
  shows "calculateSimilarity words1 words2 =
           real (card (set words1 \<inter> set words2)) / real (card (set words1 \<union> set words2))"
proof -
  have i: "length (filter (\<lambda>word. word \<in> set (remdups words2)) (remdups words1))
             = card (set words1 \<inter> set words2)"
  proof -
    have "distinct (filter (\<lambda>word. word \<in> set (remdups words2)) (remdups words1))" by simp
    then have "length (filter (\<lambda>word. word \<in> set (remdups words2)) (remdups words1))
                 = card (set (filter (\<lambda>word. word \<in> set (remdups words2)) (remdups words1)))"
      by (simp only: distinct_card)
    also have "set (filter (\<lambda>word. word \<in> set (remdups words2)) (remdups words1))
                 = set words1 \<inter> set words2" by auto
    finally show ?thesis .
  qed
  have u: "length (remdups (remdups words1 @ remdups words2)) = card (set words1 \<union> set words2)"
    by (simp add: length_remdups_card_conv)
  show ?thesis
    using assms by (simp add: calculateSimilarity_def Let_def i u del: set_remdups remdups_remdups)
qed

lemma firstSimilar_SomeD:
  "firstSimilar descWords ps = Some (p, s) \<Longrightarrow>
     s = calculateSimilarity descWords (extractKeywords (pat_description p)) \<and> s > 0.7 \<and>
     (\<exists>pre post. ps = pre @ p # post \<and>
        (\<forall>q \<in> set pre. calculateSimilarity descWords (extractKeywords (pat_description q)) \<le> 0.7))"
proof (induction ps)
  case Nil
  then show ?case by simp
next
  case (Cons a ps)
  let ?sim = "\<lambda>q. calculateSimilarity descWords (extractKeywords (pat_description q))"
  show ?case
  proof (cases "?sim a > 0.7")
    case True
    with Cons.prems have eq: "p = a" "s = ?sim a" by (auto simp: Let_def)
    have "a # ps = [] @ p # ps \<and> (\<forall>q \<in> set []. ?sim q \<le> 0.7)" using eq by simp
    then have "\<exists>pre post. a # ps = pre @ p # post \<and> (\<forall>q \<in> set pre. ?sim q \<le> 0.7)" by blast
    with eq True show ?thesis by simp
  next
    case False
    with Cons.prems have "firstSimilar descWords ps = Some (p, s)" by (simp add: Let_def)
    from Cons.IH [OF this] obtain pre post where
      ih: "s = ?sim p" "s > 0.7" "ps = pre @ p # post" "\<forall>q \<in> set pre. ?sim q \<le> 0.7"
      by blast
    have "a # ps = (a # pre) @ p # post \<and> (\<forall>q \<in> set (a # pre). ?sim q \<le> 0.7)"
      using ih False by simp
    then have "\<exists>pre post. a # ps = pre @ p # post \<and> (\<forall>q \<in> set pre. ?sim q \<le> 0.7)" by blast
    with ih show ?thesis by simp
  qed
qed

lemma firstSimilar_None_iff:
  "firstSimilar descWords ps = None \<longleftrightarrow>
     (\<forall>q \<in> set ps. calculateSimilarity descWords (extractKeywords (pat_description q)) \<le> 0.7)"
  by (induction ps) (auto simp: Let_def)

section \<open>Claim C1: the resolution order of the classifier\<close>







section \<open>Claim C2: recording a correction twice\<close>

lemma recordUserCorrection_never_lowers:
  assumes "firstWhere (keyMatch userId description merchant) (keyRaises userId description) ps
             = Inr (Some i)"
  shows "length (recordUserCorrection True now ps userId description merchant categoryId c) = length ps
         \<and> pat_confidence (ps ! i)
             \<le> pat_confidence (recordUserCorrection True now ps userId description merchant categoryId c ! i)
         \<and> pat_categoryId (recordUserCorrection True now ps userId description merchant categoryId c ! i)
             = categoryId
         \<and> pat_isUserCorrection (recordUserCorrection True now ps userId description merchant categoryId c ! i)"
proof -
  from firstWhere_SomeD [OF assms] have "i < length ps" by simp
  then show ?thesis by (simp add: recordUserCorrection_existing [OF assms])
qed

lemma recordUserCorrection_twice:
  assumes plain: "plainText description"
    and norm: "orNull merchant = merchant"
    and fresh: "\<forall>p \<in> set ps. \<not> keyMatch userId description merchant p"
    and same: "toLowerCase description' = toLowerCase description"
  shows "filter (keyMatch userId description merchant)
           (recordUserCorrection True t2
              (recordUserCorrection True t1 ps userId description merchant cat1 c1)
              userId description' merchant cat2 c2)
         = [\<lparr>pat_userId = userId, pat_description = description, pat_merchant = merchant,
              pat_categoryId = cat2, pat_confidence = max c2 c1, pat_isUserCorrection = True,
              pat_updatedAt = t2\<rparr>]"
proof -
  let ?new = "\<lparr>pat_userId = userId, pat_description = description, pat_merchant = merchant,
               pat_categoryId = cat1, pat_confidence = c1, pat_isUserCorrection = True,
               pat_updatedAt = t1\<rparr>"
  have "plainText (toLowerCase description')" using plain same by (simp add: toLowerCase_plain)
  then have plain': "plainText description'" by (simp add: toLowerCase_plain)
  have key: "keyMatch userId description' merchant = keyMatch userId description merchant"
    using same by (simp add: keyMatch_plain [OF plain] keyMatch_plain [OF plain'] fun_eq_iff)
  have none: "firstWhere (keyMatch userId description merchant) (keyRaises userId description) ps
                = Inr None"
    using fresh by (simp add: firstWhere_plain [OF plain] findIndex_None_iff)
  have first: "recordUserCorrection True t1 ps userId description merchant cat1 c1 = ps @ [?new]"
    by (simp add: recordUserCorrection_def none)
  have km: "keyMatch userId description merchant ?new"
    using norm by (simp add: keyMatch_plain [OF plain])
  have "findIndex (keyMatch userId description' merchant) (ps @ [?new]) = Some (length ps)"
    unfolding key by (rule findIndex_append_last [OF fresh km])
  then have idx: "firstWhere (keyMatch userId description' merchant)
                    (keyRaises userId description') (ps @ [?new]) = Inr (Some (length ps))"
    by (simp add: firstWhere_plain [OF plain'])
  have nofilter: "filter (keyMatch userId description merchant) ps = []"
    using fresh by (simp add: filter_empty_conv)
  show ?thesis
    using norm
    by (simp add: first recordUserCorrection_existing [OF idx] nofilter keyMatch_plain [OF plain])
qed


text \<open>
  Claim C2. Recording a correction twice for one key leaves one pattern for the key,
  with the greater of the two confidences and flagged as a user correction. The
  lemma above shows this for a merchant that is null or not empty, on descriptions
  without the characters that \<open>ILIKE\<close> reads specially. For the empty
  merchant the lookup searches for a null merchant while the created row stores the
  empty string, so the second call does not find the row of the first one and a
  second row is created: two rows for the key, the first one keeping the confidence 0.6.
\<close>

theorem recordUserCorrection_empty_merchant_duplicates:
  "recordUserCorrection True 2
     (recordUserCorrection True 1 [] ''u1'' ''ACME CORP PAYMENT'' (Some '''') ''salary'' 0.6)
     ''u1'' ''ACME CORP PAYMENT'' (Some '''') ''salary'' 0.9
   = [acmeRow (Some '''') 0.6 1, acmeRow (Some '''') 0.9 2]"
  by code_simp

section \<open>Claim C3: the order of \<open>findSimilarPattern\<close>\<close>

text \<open>
  Claim C3 lets the merchant step match in either direction. The query of the code
  asks for stored merchants that contain the merchant of the transaction; a stored
  merchant that is contained in it (here \<open>Swiggy\<close> in \<open>Swiggy Instamart\<close>) is not found.
\<close>

theorem merchant_match_one_direction_counterexample:
  "includesStr (toLowerCase ''Swiggy Instamart'') (toLowerCase ''Swiggy'')
   \<and> findSimilarPattern True categoryNames [lunchPattern 0.9] ''u1'' ''Dinner payment''
        (Some ''Swiggy Instamart'') = Inr None"
  by code_simp

lemma firstByConfidence_filter:
  assumes "\<exists>p \<in> set ps. P p"
  shows "\<exists>p \<in> set ps. P p \<and> (\<forall>q \<in> set ps. P q \<longrightarrow> pat_confidence q \<le> pat_confidence p)
           \<and> firstByConfidence (filter P ps) = Some p"
proof -
  from assms have "filter P ps \<noteq> []" by (simp add: filter_empty_conv)
  then obtain p where p: "firstByConfidence (filter P ps) = Some p"
    by (cases "firstByConfidence (filter P ps)") (auto simp: firstByConfidence_None_iff)
  from firstByConfidence_SomeD [OF p]
  have "p \<in> set ps" "P p" "\<forall>q \<in> set ps. P q \<longrightarrow> pat_confidence q \<le> pat_confidence p"
    by auto
  with p show ?thesis by blast
qed

lemma no_exact: "\<forall>p \<in> set ps. \<not> P p \<Longrightarrow> firstByConfidence (filter P ps) = None"
  by (simp add: firstByConfidence_None_iff filter_empty_conv)

lemma firstSimilar_some:
  assumes "\<exists>h \<in> set ps. calculateSimilarity descWords (extractKeywords (pat_description h)) > 0.7"
  shows "\<exists>h \<in> set ps. calculateSimilarity descWords (extractKeywords (pat_description h)) > 0.7
           \<and> firstSimilar descWords ps =
               Some (h, calculateSimilarity descWords (extractKeywords (pat_description h)))"
proof (cases "firstSimilar descWords ps")
  case None
  with assms show ?thesis by (simp add: firstSimilar_None_iff) fastforce
next
  case (Some hs)
  obtain h s where hs: "hs = (h, s)" by (cases hs)
  from firstSimilar_SomeD [OF Some [unfolded hs]] obtain pre post where
    "s = calculateSimilarity descWords (extractKeywords (pat_description h))" "s > 0.7"
    "ps = pre @ h # post" by blast
  with Some hs show ?thesis by auto
qed

lemma findSimilarPattern_exact:
  assumes "plainText description"
    and "\<exists>p \<in> set ps. keyMatch userId description merchant p"
  shows "\<exists>p \<in> set ps. keyMatch userId description merchant p
         \<and> (\<forall>q \<in> set ps. keyMatch userId description merchant q \<longrightarrow>
               pat_confidence q \<le> pat_confidence p)
         \<and> findSimilarPattern True categoryName ps userId description merchant =
             Inr (Some \<lparr>m_categoryId = pat_categoryId p,
                        m_categoryName = categoryName (pat_categoryId p),
                        m_confidence = pat_confidence p, m_matchType = Exact\<rparr>)"
proof -
  from firstByConfidence_filter [OF assms(2)] obtain p where
    p: "p \<in> set ps" "keyMatch userId description merchant p"
       "\<forall>q \<in> set ps. keyMatch userId description merchant q \<longrightarrow>
          pat_confidence q \<le> pat_confidence p"
       "firstByConfidence (filter (keyMatch userId description merchant) ps) = Some p"
    by blast
  have "findSimilarPattern True categoryName ps userId description merchant =
          Inr (Some \<lparr>m_categoryId = pat_categoryId p,
                     m_categoryName = categoryName (pat_categoryId p),
                     m_confidence = pat_confidence p, m_matchType = Exact\<rparr>)"
    by (simp add: findSimilarPattern_def allWhere_plain [OF assms(1)] p(4))
  with p(1-3) show ?thesis by blast
qed

lemma findSimilarPattern_description:
  assumes "plainText description"
    and "\<forall>p \<in> set ps. \<not> keyMatch userId description merchant p"
    and "extractKeywords description \<noteq> []"
    and "\<exists>h \<in> set ps. pat_userId h = userId
           \<and> calculateSimilarity (extractKeywords description)
                (extractKeywords (pat_description h)) > 0.7"
  shows "\<exists>h \<in> set ps. pat_userId h = userId
           \<and> calculateSimilarity (extractKeywords description)
                (extractKeywords (pat_description h)) > 0.7
           \<and> findSimilarPattern True categoryName ps userId description merchant =
               Inr (Some \<lparr>m_categoryId = pat_categoryId h,
                          m_categoryName = categoryName (pat_categoryId h),
                          m_confidence = pat_confidence h
                            * calculateSimilarity (extractKeywords description)
                                (extractKeywords (pat_description h)),
                          m_matchType = Description\<rparr>)"
proof -
  let ?sim = "\<lambda>q. calculateSimilarity (extractKeywords description)
                    (extractKeywords (pat_description q))"
  have ex: "firstByConfidence (filter (keyMatch userId description merchant) ps) = None"
    using assms(2) by (rule no_exact)
  from assms(4) have "\<exists>h \<in> set (filter (\<lambda>p. pat_userId p = userId) ps). ?sim h > 0.7"
    by auto
  from firstSimilar_some [OF this] obtain h where
    h: "h \<in> set ps" "pat_userId h = userId" "?sim h > 0.7"
       "firstSimilar (extractKeywords description) (filter (\<lambda>p. pat_userId p = userId) ps)
          = Some (h, ?sim h)"
    by auto
  have "findSimilarPattern True categoryName ps userId description merchant =
          Inr (Some \<lparr>m_categoryId = pat_categoryId h,
                     m_categoryName = categoryName (pat_categoryId h),
                     m_confidence = pat_confidence h * ?sim h,
                     m_matchType = Description\<rparr>)"
    using assms(3)
    by (simp add: findSimilarPattern_def allWhere_plain [OF assms(1)] ex h(4) Let_def)
  with h(1-3) show ?thesis by blast
qed

lemma findSimilarPattern_merchant:
  assumes "plainText description"
    and "\<forall>p \<in> set ps. \<not> keyMatch userId description merchant p"
    and "extractKeywords description = []
         \<or> (\<forall>q \<in> set ps. pat_userId q = userId \<longrightarrow>
               calculateSimilarity (extractKeywords description)
                 (extractKeywords (pat_description q)) \<le> 0.7)"
    and "merchant = Some mq" "mq \<noteq> []" "plainText mq"
    and "\<exists>p \<in> set ps. merchantContains userId mq p"
  shows "\<exists>p \<in> set ps. merchantContains userId mq p
           \<and> (\<forall>q \<in> set ps. merchantContains userId mq q \<longrightarrow>
                 pat_confidence q \<le> pat_confidence p)
           \<and> findSimilarPattern True categoryName ps userId description merchant =
               Inr (Some \<lparr>m_categoryId = pat_categoryId p,
                          m_categoryName = categoryName (pat_categoryId p),
                          m_confidence = pat_confidence p * 0.8, m_matchType = Merchant\<rparr>)"
proof -
  have ex: "firstByConfidence (filter (keyMatch userId description merchant) ps) = None"
    using assms(2) by (rule no_exact)
  from assms(3) have nd: "(if length (extractKeywords description) > 0
                    then firstSimilar (extractKeywords description)
                           (filter (\<lambda>p. pat_userId p = userId) ps)
                    else None) = None"
    by (auto simp: firstSimilar_None_iff)
  from firstByConfidence_filter [OF assms(7)] obtain p where
    p: "p \<in> set ps" "merchantContains userId mq p"
       "\<forall>q \<in> set ps. merchantContains userId mq q \<longrightarrow> pat_confidence q \<le> pat_confidence p"
       "firstByConfidence (filter (merchantContains userId mq) ps) = Some p"
    by blast
  have "findSimilarPattern True categoryName ps userId description merchant =
          Inr (Some \<lparr>m_categoryId = pat_categoryId p,
                     m_categoryName = categoryName (pat_categoryId p),
                     m_confidence = pat_confidence p * 0.8, m_matchType = Merchant\<rparr>)"
    unfolding findSimilarPattern_def Let_def allWhere_plain [OF assms(1)]
    by (simp only: sum.case ex nd option.case)
       (simp add: assms(4,5) allWhere_merchant_plain [OF assms(6,5)] p(4))
  with p(1-3) show ?thesis by blast
qed

lemma findSimilarPattern_null:
  assumes "plainText description"
    and "\<forall>p \<in> set ps. \<not> keyMatch userId description merchant p"
    and "extractKeywords description = []
         \<or> (\<forall>q \<in> set ps. pat_userId q = userId \<longrightarrow>
               calculateSimilarity (extractKeywords description)
                 (extractKeywords (pat_description q)) \<le> 0.7)"
    and "merchant = None \<or> merchant = Some []
         \<or> (\<exists>mq. merchant = Some mq \<and> mq \<noteq> [] \<and> plainText mq
                \<and> (\<forall>p \<in> set ps. \<not> merchantContains userId mq p))"
  shows "findSimilarPattern True categoryName ps userId description merchant = Inr None"
proof -
  have ex: "firstByConfidence (filter (keyMatch userId description merchant) ps) = None"
    using assms(2) by (rule no_exact)
  from assms(3) have nd: "(if length (extractKeywords description) > 0
                    then firstSimilar (extractKeywords description)
                           (filter (\<lambda>p. pat_userId p = userId) ps)
                    else None) = None"
    by (auto simp: firstSimilar_None_iff)
  have nm: "(case merchant of
               None \<Rightarrow> Inr None
             | Some m \<Rightarrow>
                 if m = [] then Inr None
                 else (case allWhere (merchantContains userId m) (merchantRaises userId m) ps of
                         Inl e \<Rightarrow> Inl e
                       | Inr found \<Rightarrow>
                          (case firstByConfidence found of
                             Some merchantMatch \<Rightarrow>
                               Inr (Some \<lparr>m_categoryId = pat_categoryId merchantMatch,
                                          m_categoryName = categoryName (pat_categoryId merchantMatch),
                                          m_confidence = pat_confidence merchantMatch * 0.8,
                                          m_matchType = Merchant\<rparr>)
                           | None \<Rightarrow> Inr None))) = Inr None"
    using assms(4) by (auto simp: allWhere_merchant_plain no_exact)
  show ?thesis
    unfolding findSimilarPattern_def Let_def allWhere_plain [OF assms(1)]
    by (simp only: sum.case ex nd option.case) (simp add: nm)
qed

lemma exact_match_reads_wildcards:
  "findSimilarPattern True categoryNames
     [(acmeRow None 1 1)\<lparr>pat_description := ''ACMEXCORP PAYMENT''\<rparr>] ''u1'' ''ACME_CORP PAYMENT'' None
   = Inr (Some \<lparr>m_categoryId = ''salary'', m_categoryName = ''Salary'', m_confidence = 1,
                m_matchType = Exact\<rparr>)
   \<and> findSimilarPattern True categoryNames [lunchPattern 0.9] ''u1'' ''Dinner payment''
       (Some ''S_i%y'')
     = Inr (Some \<lparr>m_categoryId = ''c1'', m_categoryName = ''Groceries & Food'',
                  m_confidence = 0.9 * 0.8, m_matchType = Merchant\<rparr>)
   \<and> findSimilarPattern True categoryNames [acmeRow None 1 1] ''u1'' (''ACME'' @ [CHR 0x5C]) None
     = Inl DatabaseError"
  by code_simp

text \<open>
  Claim C3, amended. For a description and a merchant without the characters that
  \<open>ILIKE\<close> reads specially, and with the database answering, \<open>findSimilarPattern\<close>
  tries in order:
  (a) the exact match (same user, descriptions equal up to case, the stored merchant
  equal to the merchant of the query, an empty or absent one meaning null), giving a
  pattern of greatest confidence among the matching ones with its stored confidence;
  (b) when the query has a keyword and some pattern of the user has a Jaccard
  similarity above 0.7, such a pattern, with the stored confidence times the
  similarity; (c) when the merchant of the query is not empty, a pattern of greatest
  confidence among those whose stored merchant contains it up to case, with the stored
  confidence times 0.8; (d) null otherwise. Which of several similar patterns step (b)
  gives is not stated.
\<close>

theorem findSimilarPattern_order:
  assumes "plainText description"
  shows
  "((\<exists>p \<in> set ps. pat_userId p = userId
        \<and> toLowerCase (pat_description p) = toLowerCase description
        \<and> pat_merchant p = orNull merchant) \<longrightarrow>
      (\<exists>p \<in> set ps. pat_userId p = userId
         \<and> toLowerCase (pat_description p) = toLowerCase description
         \<and> pat_merchant p = orNull merchant
         \<and> (\<forall>q \<in> set ps. pat_userId q = userId
                \<and> toLowerCase (pat_description q) = toLowerCase description
                \<and> pat_merchant q = orNull merchant \<longrightarrow>
               pat_confidence q \<le> pat_confidence p)
         \<and> findSimilarPattern True categoryName ps userId description merchant =
             Inr (Some \<lparr>m_categoryId = pat_categoryId p,
                        m_categoryName = categoryName (pat_categoryId p),
                        m_confidence = pat_confidence p, m_matchType = Exact\<rparr>)))
   \<and> ((\<forall>p \<in> set ps. \<not> (pat_userId p = userId
            \<and> toLowerCase (pat_description p) = toLowerCase description
            \<and> pat_merchant p = orNull merchant))
        \<and> extractKeywords description \<noteq> []
        \<and> (\<exists>h \<in> set ps. pat_userId h = userId
              \<and> calculateSimilarity (extractKeywords description)
                   (extractKeywords (pat_description h)) > 0.7) \<longrightarrow>
        (\<exists>h \<in> set ps. pat_userId h = userId
           \<and> calculateSimilarity (extractKeywords description)
                (extractKeywords (pat_description h)) > 0.7
           \<and> findSimilarPattern True categoryName ps userId description merchant =
               Inr (Some \<lparr>m_categoryId = pat_categoryId h,
                          m_categoryName = categoryName (pat_categoryId h),
                          m_confidence = pat_confidence h
                            * calculateSimilarity (extractKeywords description)
                                (extractKeywords (pat_description h)),
                          m_matchType = Description\<rparr>)))
   \<and> ((\<forall>p \<in> set ps. \<not> (pat_userId p = userId
            \<and> toLowerCase (pat_description p) = toLowerCase description
            \<and> pat_merchant p = orNull merchant))
        \<and> (extractKeywords description = []
            \<or> (\<forall>q \<in> set ps. pat_userId q = userId \<longrightarrow>
                  calculateSimilarity (extractKeywords description)
                    (extractKeywords (pat_description q)) \<le> 0.7))
        \<and> merchant = Some mq \<and> mq \<noteq> [] \<and> plainText mq
        \<and> (\<exists>p \<in> set ps. pat_userId p = userId
              \<and> (case pat_merchant p of None \<Rightarrow> False
                  | Some stored \<Rightarrow> includesStr (toLowerCase stored) (toLowerCase mq))) \<longrightarrow>
        (\<exists>p \<in> set ps. pat_userId p = userId
           \<and> (case pat_merchant p of None \<Rightarrow> False
               | Some stored \<Rightarrow> includesStr (toLowerCase stored) (toLowerCase mq))
           \<and> (\<forall>q \<in> set ps. pat_userId q = userId
                  \<and> (case pat_merchant q of None \<Rightarrow> False
                      | Some stored \<Rightarrow> includesStr (toLowerCase stored) (toLowerCase mq)) \<longrightarrow>
                 pat_confidence q \<le> pat_confidence p)
           \<and> findSimilarPattern True categoryName ps userId description merchant =
               Inr (Some \<lparr>m_categoryId = pat_categoryId p,
                          m_categoryName = categoryName (pat_categoryId p),
                          m_confidence = pat_confidence p * 0.8, m_matchType = Merchant\<rparr>)))
   \<and> ((\<forall>p \<in> set ps. \<not> (pat_userId p = userId
            \<and> toLowerCase (pat_description p) = toLowerCase description
            \<and> pat_merchant p = orNull merchant))
        \<and> (extractKeywords description = []
            \<or> (\<forall>q \<in> set ps. pat_userId q = userId \<longrightarrow>
                  calculateSimilarity (extractKeywords description)
                    (extractKeywords (pat_description q)) \<le> 0.7))
        \<and> (merchant = None \<or> merchant = Some []
            \<or> (\<exists>mq. merchant = Some mq \<and> mq \<noteq> [] \<and> plainText mq
                  \<and> (\<forall>p \<in> set ps. \<not> (pat_userId p = userId
                        \<and> (case pat_merchant p of None \<Rightarrow> False
                            | Some stored \<Rightarrow>
                                includesStr (toLowerCase stored) (toLowerCase mq)))))) \<longrightarrow>
        findSimilarPattern True categoryName ps userId description merchant = Inr None)"
proof (intro conjI impI)
  note K = keyMatch_plain [OF assms, symmetric]
  assume "\<exists>p \<in> set ps. pat_userId p = userId
        \<and> toLowerCase (pat_description p) = toLowerCase description
        \<and> pat_merchant p = orNull merchant"
  then have "\<exists>p \<in> set ps. keyMatch userId description merchant p" unfolding K .
  from findSimilarPattern_exact [OF assms this, of categoryName, unfolded keyMatch_plain [OF assms]]
  show "\<exists>p \<in> set ps. pat_userId p = userId
         \<and> toLowerCase (pat_description p) = toLowerCase description
         \<and> pat_merchant p = orNull merchant
         \<and> (\<forall>q \<in> set ps. pat_userId q = userId
                \<and> toLowerCase (pat_description q) = toLowerCase description
                \<and> pat_merchant q = orNull merchant \<longrightarrow>
               pat_confidence q \<le> pat_confidence p)
         \<and> findSimilarPattern True categoryName ps userId description merchant =
             Inr (Some \<lparr>m_categoryId = pat_categoryId p,
                        m_categoryName = categoryName (pat_categoryId p),
                        m_confidence = pat_confidence p, m_matchType = Exact\<rparr>)"
    by (simp only: conj_assoc)
next
  note K = keyMatch_plain [OF assms, symmetric]
  assume a: "(\<forall>p \<in> set ps. \<not> (pat_userId p = userId
            \<and> toLowerCase (pat_description p) = toLowerCase description
            \<and> pat_merchant p = orNull merchant))
        \<and> extractKeywords description \<noteq> []
        \<and> (\<exists>h \<in> set ps. pat_userId h = userId
              \<and> calculateSimilarity (extractKeywords description)
                   (extractKeywords (pat_description h)) > 0.7)"
  from a have 1: "\<forall>p \<in> set ps. \<not> keyMatch userId description merchant p" unfolding K by blast
  from a have 2: "extractKeywords description \<noteq> []" by blast
  from a have 3: "\<exists>h \<in> set ps. pat_userId h = userId
              \<and> calculateSimilarity (extractKeywords description)
                   (extractKeywords (pat_description h)) > 0.7" by blast
  show "\<exists>h \<in> set ps. pat_userId h = userId
           \<and> calculateSimilarity (extractKeywords description)
                (extractKeywords (pat_description h)) > 0.7
           \<and> findSimilarPattern True categoryName ps userId description merchant =
               Inr (Some \<lparr>m_categoryId = pat_categoryId h,
                          m_categoryName = categoryName (pat_categoryId h),
                          m_confidence = pat_confidence h
                            * calculateSimilarity (extractKeywords description)
                                (extractKeywords (pat_description h)),
                          m_matchType = Description\<rparr>)"
    by (rule findSimilarPattern_description [OF assms 1 2 3])
next
  note K = keyMatch_plain [OF assms, symmetric]
  assume a: "(\<forall>p \<in> set ps. \<not> (pat_userId p = userId
            \<and> toLowerCase (pat_description p) = toLowerCase description
            \<and> pat_merchant p = orNull merchant))
        \<and> (extractKeywords description = []
            \<or> (\<forall>q \<in> set ps. pat_userId q = userId \<longrightarrow>
                  calculateSimilarity (extractKeywords description)
                    (extractKeywords (pat_description q)) \<le> 0.7))
        \<and> merchant = Some mq \<and> mq \<noteq> [] \<and> plainText mq
        \<and> (\<exists>p \<in> set ps. pat_userId p = userId
              \<and> (case pat_merchant p of None \<Rightarrow> False
                  | Some stored \<Rightarrow> includesStr (toLowerCase stored) (toLowerCase mq)))"
  from a have m: "merchant = Some mq" "mq \<noteq> []" "plainText mq" by blast+
  note M = merchantContains_plain [OF m(3,2), symmetric]
  from a have 1: "\<forall>p \<in> set ps. \<not> keyMatch userId description merchant p" unfolding K by blast
  from a have 2: "extractKeywords description = []
            \<or> (\<forall>q \<in> set ps. pat_userId q = userId \<longrightarrow>
                  calculateSimilarity (extractKeywords description)
                    (extractKeywords (pat_description q)) \<le> 0.7)" by blast
  from a have 3: "\<exists>p \<in> set ps. merchantContains userId mq p" unfolding M by blast
  from findSimilarPattern_merchant [OF assms 1 2 m 3, of categoryName,
         unfolded merchantContains_plain [OF m(3,2)]]
  show "\<exists>p \<in> set ps. pat_userId p = userId
           \<and> (case pat_merchant p of None \<Rightarrow> False
               | Some stored \<Rightarrow> includesStr (toLowerCase stored) (toLowerCase mq))
           \<and> (\<forall>q \<in> set ps. pat_userId q = userId
                  \<and> (case pat_merchant q of None \<Rightarrow> False
                      | Some stored \<Rightarrow> includesStr (toLowerCase stored) (toLowerCase mq)) \<longrightarrow>
                 pat_confidence q \<le> pat_confidence p)
           \<and> findSimilarPattern True categoryName ps userId description merchant =
               Inr (Some \<lparr>m_categoryId = pat_categoryId p,
                          m_categoryName = categoryName (pat_categoryId p),
                          m_confidence = pat_confidence p * 0.8, m_matchType = Merchant\<rparr>)"
    by (simp only: conj_assoc)
next
  note K = keyMatch_plain [OF assms, symmetric]
  assume a: "(\<forall>p \<in> set ps. \<not> (pat_userId p = userId
            \<and> toLowerCase (pat_description p) = toLowerCase description
            \<and> pat_merchant p = orNull merchant))
        \<and> (extractKeywords description = []
            \<or> (\<forall>q \<in> set ps. pat_userId q = userId \<longrightarrow>
                  calculateSimilarity (extractKeywords description)
                    (extractKeywords (pat_description q)) \<le> 0.7))
        \<and> (merchant = None \<or> merchant = Some []
            \<or> (\<exists>mq. merchant = Some mq \<and> mq \<noteq> [] \<and> plainText mq
                  \<and> (\<forall>p \<in> set ps. \<not> (pat_userId p = userId
                        \<and> (case pat_merchant p of None \<Rightarrow> False
                            | Some stored \<Rightarrow>
                                includesStr (toLowerCase stored) (toLowerCase mq))))))"
  from a have 1: "\<forall>p \<in> set ps. \<not> keyMatch userId description merchant p" unfolding K by blast
  from a have 2: "extractKeywords description = []
            \<or> (\<forall>q \<in> set ps. pat_userId q = userId \<longrightarrow>
                  calculateSimilarity (extractKeywords description)
                    (extractKeywords (pat_description q)) \<le> 0.7)" by blast
  from a have "merchant = None \<or> merchant = Some []
            \<or> (\<exists>mq. merchant = Some mq \<and> mq \<noteq> [] \<and> plainText mq
                  \<and> (\<forall>p \<in> set ps. \<not> (pat_userId p = userId
                        \<and> (case pat_merchant p of None \<Rightarrow> False
                            | Some stored \<Rightarrow>
                                includesStr (toLowerCase stored) (toLowerCase mq)))))" by blast
  then have 3: "merchant = None \<or> merchant = Some []
         \<or> (\<exists>mq. merchant = Some mq \<and> mq \<noteq> [] \<and> plainText mq
                \<and> (\<forall>p \<in> set ps. \<not> merchantContains userId mq p))"
    by (auto simp: merchantContains_plain)
  show "findSimilarPattern True categoryName ps userId description merchant = Inr None"
    by (rule findSimilarPattern_null [OF assms 1 2 3])
qed

theorem findSimilarPattern_order_witness:
  "findSimilarPattern True categoryNames [acmeRow None 1 1] ''u1'' ''acme corp payment'' None =
     Inr (Some \<lparr>m_categoryId = ''salary'', m_categoryName = ''Salary'', m_confidence = 1,
                m_matchType = Exact\<rparr>)
   \<and> findSimilarPattern True categoryNames [swiggyPattern] ''u1'' ''Swiggy order 123 via upi'' None =
       Inr (Some \<lparr>m_categoryId = ''c1'', m_categoryName = ''Groceries & Food'',
                  m_confidence = 0.9 * calculateSimilarity
                     (extractKeywords ''Swiggy order 123 via upi'')
                     (extractKeywords ''UPI-SWIGGY ORDER 123''),
                  m_matchType = Description\<rparr>)
   \<and> findSimilarPattern True categoryNames [lunchPattern 0.9] ''u1'' ''Dinner payment'' (Some ''swig'') =
       Inr (Some \<lparr>m_categoryId = ''c1'', m_categoryName = ''Groceries & Food'',
                  m_confidence = 0.9 * 0.8, m_matchType = Merchant\<rparr>)
   \<and> findSimilarPattern True categoryNames [lunchPattern 0.9] ''u1'' ''Dinner payment''
        (Some ''Swiggy Instamart'') = Inr None"
proof -
  have pa: "plainText ''acme corp payment''" by code_simp
  have ha: "\<exists>p \<in> set [acmeRow None 1 1]. pat_userId p = ''u1''
              \<and> toLowerCase (pat_description p) = toLowerCase ''acme corp payment''
              \<and> pat_merchant p = orNull None"
    by code_simp
  have "\<exists>p \<in> set [acmeRow None 1 1]. pat_userId p = ''u1''
         \<and> toLowerCase (pat_description p) = toLowerCase ''acme corp payment''
         \<and> pat_merchant p = orNull None
         \<and> (\<forall>q \<in> set [acmeRow None 1 1]. pat_userId q = ''u1''
                \<and> toLowerCase (pat_description q) = toLowerCase ''acme corp payment''
                \<and> pat_merchant q = orNull None \<longrightarrow>
               pat_confidence q \<le> pat_confidence p)
         \<and> findSimilarPattern True categoryNames [acmeRow None 1 1] ''u1'' ''acme corp payment'' None =
             Inr (Some \<lparr>m_categoryId = pat_categoryId p,
                        m_categoryName = categoryNames (pat_categoryId p),
                        m_confidence = pat_confidence p, m_matchType = Exact\<rparr>)"
    by (rule findSimilarPattern_order
         [OF pa, where ps = "[acmeRow None 1 1]" and userId = "''u1''" and merchant = None
            and categoryName = categoryNames,
          THEN conjunct1, THEN mp, OF ha])
  then have ra:
    "findSimilarPattern True categoryNames [acmeRow None 1 1] ''u1'' ''acme corp payment'' None =
       Inr (Some \<lparr>m_categoryId = ''salary'', m_categoryName = ''Salary'', m_confidence = 1,
                  m_matchType = Exact\<rparr>)"
    by (simp add: acmeRow_def categoryNames_def)
  have pb: "plainText ''Swiggy order 123 via upi''" by code_simp
  have hb: "(\<forall>p \<in> set [swiggyPattern]. \<not> (pat_userId p = ''u1''
            \<and> toLowerCase (pat_description p) = toLowerCase ''Swiggy order 123 via upi''
            \<and> pat_merchant p = orNull None))
        \<and> extractKeywords ''Swiggy order 123 via upi'' \<noteq> []
        \<and> (\<exists>h \<in> set [swiggyPattern]. pat_userId h = ''u1''
              \<and> calculateSimilarity (extractKeywords ''Swiggy order 123 via upi'')
                   (extractKeywords (pat_description h)) > 0.7)"
    by code_simp
  have "\<exists>h \<in> set [swiggyPattern]. pat_userId h = ''u1''
           \<and> calculateSimilarity (extractKeywords ''Swiggy order 123 via upi'')
                (extractKeywords (pat_description h)) > 0.7
           \<and> findSimilarPattern True categoryNames [swiggyPattern] ''u1''
               ''Swiggy order 123 via upi'' None =
               Inr (Some \<lparr>m_categoryId = pat_categoryId h,
                          m_categoryName = categoryNames (pat_categoryId h),
                          m_confidence = pat_confidence h
                            * calculateSimilarity (extractKeywords ''Swiggy order 123 via upi'')
                                (extractKeywords (pat_description h)),
                          m_matchType = Description\<rparr>)"
    by (rule findSimilarPattern_order
         [OF pb, where ps = "[swiggyPattern]" and userId = "''u1''" and merchant = None
            and categoryName = categoryNames,
          THEN conjunct2, THEN conjunct1, THEN mp, OF hb])
  then have rb:
    "findSimilarPattern True categoryNames [swiggyPattern] ''u1'' ''Swiggy order 123 via upi'' None =
       Inr (Some \<lparr>m_categoryId = ''c1'', m_categoryName = ''Groceries & Food'',
                  m_confidence = 0.9 * calculateSimilarity
                     (extractKeywords ''Swiggy order 123 via upi'')
                     (extractKeywords ''UPI-SWIGGY ORDER 123''),
                  m_matchType = Description\<rparr>)"
    by (simp add: swiggyPattern_def categoryNames_def)
  have pc: "plainText ''Dinner payment''" by code_simp
  have hc: "(\<forall>p \<in> set [lunchPattern 0.9]. \<not> (pat_userId p = ''u1''
            \<and> toLowerCase (pat_description p) = toLowerCase ''Dinner payment''
            \<and> pat_merchant p = orNull (Some ''swig'')))
        \<and> (extractKeywords ''Dinner payment'' = []
            \<or> (\<forall>q \<in> set [lunchPattern 0.9]. pat_userId q = ''u1'' \<longrightarrow>
                  calculateSimilarity (extractKeywords ''Dinner payment'')
                    (extractKeywords (pat_description q)) \<le> 0.7))
        \<and> Some ''swig'' = Some ''swig'' \<and> ''swig'' \<noteq> [] \<and> plainText ''swig''
        \<and> (\<exists>p \<in> set [lunchPattern 0.9]. pat_userId p = ''u1''
              \<and> (case pat_merchant p of None \<Rightarrow> False
                  | Some stored \<Rightarrow> includesStr (toLowerCase stored) (toLowerCase ''swig'')))"
    by code_simp
  have "\<exists>p \<in> set [lunchPattern 0.9]. pat_userId p = ''u1''
           \<and> (case pat_merchant p of None \<Rightarrow> False
               | Some stored \<Rightarrow> includesStr (toLowerCase stored) (toLowerCase ''swig''))
           \<and> (\<forall>q \<in> set [lunchPattern 0.9]. pat_userId q = ''u1''
                  \<and> (case pat_merchant q of None \<Rightarrow> False
                      | Some stored \<Rightarrow> includesStr (toLowerCase stored) (toLowerCase ''swig'')) \<longrightarrow>
                 pat_confidence q \<le> pat_confidence p)
           \<and> findSimilarPattern True categoryNames [lunchPattern 0.9] ''u1'' ''Dinner payment''
               (Some ''swig'') =
               Inr (Some \<lparr>m_categoryId = pat_categoryId p,
                          m_categoryName = categoryNames (pat_categoryId p),
                          m_confidence = pat_confidence p * 0.8, m_matchType = Merchant\<rparr>)"
    by (rule findSimilarPattern_order
         [OF pc, where ps = "[lunchPattern 0.9]" and userId = "''u1''"
            and merchant = "Some ''swig''" and mq = "''swig''" and categoryName = categoryNames,
          THEN conjunct2, THEN conjunct2, THEN conjunct1, THEN mp, OF hc])
  then have rc:
    "findSimilarPattern True categoryNames [lunchPattern 0.9] ''u1'' ''Dinner payment'' (Some ''swig'') =
       Inr (Some \<lparr>m_categoryId = ''c1'', m_categoryName = ''Groceries & Food'',
                  m_confidence = 0.9 * 0.8, m_matchType = Merchant\<rparr>)"
    by (simp add: lunchPattern_def categoryNames_def)
  have hd: "(\<forall>p \<in> set [lunchPattern 0.9]. \<not> (pat_userId p = ''u1''
            \<and> toLowerCase (pat_description p) = toLowerCase ''Dinner payment''
            \<and> pat_merchant p = orNull (Some ''Swiggy Instamart'')))
        \<and> (extractKeywords ''Dinner payment'' = []
            \<or> (\<forall>q \<in> set [lunchPattern 0.9]. pat_userId q = ''u1'' \<longrightarrow>
                  calculateSimilarity (extractKeywords ''Dinner payment'')
                    (extractKeywords (pat_description q)) \<le> 0.7))
        \<and> (Some ''Swiggy Instamart'' = None \<or> Some ''Swiggy Instamart'' = Some []
            \<or> (\<exists>mq. Some ''Swiggy Instamart'' = Some mq \<and> mq \<noteq> [] \<and> plainText mq
                  \<and> (\<forall>p \<in> set [lunchPattern 0.9]. \<not> (pat_userId p = ''u1''
                        \<and> (case pat_merchant p of None \<Rightarrow> False
                            | Some stored \<Rightarrow>
                                includesStr (toLowerCase stored) (toLowerCase mq))))))"
  proof -
    have 1: "\<forall>p \<in> set [lunchPattern 0.9]. \<not> (pat_userId p = ''u1''
            \<and> toLowerCase (pat_description p) = toLowerCase ''Dinner payment''
            \<and> pat_merchant p = orNull (Some ''Swiggy Instamart''))"
      by code_simp
    have 2: "\<forall>q \<in> set [lunchPattern 0.9]. pat_userId q = ''u1'' \<longrightarrow>
                  calculateSimilarity (extractKeywords ''Dinner payment'')
                    (extractKeywords (pat_description q)) \<le> 0.7"
      by code_simp
    have 3: "''Swiggy Instamart'' \<noteq> [] \<and> plainText ''Swiggy Instamart''
             \<and> (\<forall>p \<in> set [lunchPattern 0.9]. \<not> (pat_userId p = ''u1''
                        \<and> (case pat_merchant p of None \<Rightarrow> False
                            | Some stored \<Rightarrow>
                                includesStr (toLowerCase stored)
                                  (toLowerCase ''Swiggy Instamart''))))"
      by code_simp
    from 3 have "\<exists>mq. Some ''Swiggy Instamart'' = Some mq \<and> mq \<noteq> [] \<and> plainText mq
                  \<and> (\<forall>p \<in> set [lunchPattern 0.9]. \<not> (pat_userId p = ''u1''
                        \<and> (case pat_merchant p of None \<Rightarrow> False
                            | Some stored \<Rightarrow>
                                includesStr (toLowerCase stored) (toLowerCase mq))))"
      by (intro exI [of _ "''Swiggy Instamart''"] conjI refl) blast+
    with 1 2 show ?thesis by (intro conjI disjI2)
  qed
  have rd: "findSimilarPattern True categoryNames [lunchPattern 0.9] ''u1'' ''Dinner payment''
              (Some ''Swiggy Instamart'') = Inr None"
    by (rule findSimilarPattern_order
         [OF pc, where ps = "[lunchPattern 0.9]" and userId = "''u1''"
            and merchant = "Some ''Swiggy Instamart''" and categoryName = categoryNames,
          THEN conjunct2, THEN conjunct2, THEN conjunct2, THEN mp, OF hd])
  from ra rb rc rd show ?thesis by (intro conjI)
qed

section \<open>Claim C4: failures of the LLM step\<close>

text \<open>
  Claim C4 lets the fallback name the first available category for every input. With
  an empty list of available categories there is none, and the guard
  \<open>availableCategories[0] || 'Uncategorized'\<close> names a category that is not available.
\<close>

theorem llm_fallback_empty_list_counterexample:
  "category (llmCategorize TransportFailure []) = ''Uncategorized''
   \<and> category (llmCategorize TransportFailure []) \<notin> set []"
  by code_simp

lemma categorizeTransaction_InlD:
  assumes "categorizeTransaction up categoryName ps llm description merchant amount
             availableCategories userId = Inl e"
  shows "\<exists>uid. userId = Some uid \<and> uid \<noteq> []
           \<and> findSimilarPattern up categoryName ps uid description merchant = Inl e"
  using assms
  by (auto simp: categorizeTransaction_def split: option.splits if_splits sum.splits)

text \<open>
  Claim C4, amended. The LLM step never raises. A transport failure gives the
  suggestion of confidence 0.1 with the reasoning \<open>Failed to get LLM categorization\<close>; a
  response that is not a string, holds no JSON object, holds invalid JSON or a JSON
  object whose category is not a string gives the suggestion of confidence 0.1 with the
  reasoning \<open>Could not parse LLM response\<close>. Both name the first available category
  when the list is not empty and its first name is not empty, and \<open>Uncategorized\<close>
  otherwise. The only error \<open>categorizeTransaction\<close> passes to its caller is an error
  of the lookup in the pattern store.
\<close>

theorem llm_fallback_never_raises:
  "llmCategorize TransportFailure availableCategories =
      \<lparr>category = firstOrUncategorized availableCategories, confidence = Num 0.1,
       reasoning = ''Failed to get LLM categorization''\<rparr>
   \<and> (response = NotAString \<or> response = NoJsonObject \<or> response = InvalidJson
        \<or> (\<exists>parsed. response = JsonObject parsed \<and> pj_category parsed = None) \<longrightarrow>
        llmCategorize (Responded response) availableCategories =
          \<lparr>category = firstOrUncategorized availableCategories, confidence = Num 0.1,
           reasoning = ''Could not parse LLM response''\<rparr>)
   \<and> (availableCategories = c # rest \<and> c \<noteq> [] \<longrightarrow> firstOrUncategorized availableCategories = c)
   \<and> (availableCategories = [] \<or> availableCategories = [] # rest \<longrightarrow>
        firstOrUncategorized availableCategories = ''Uncategorized'')
   \<and> (categorizeTransaction up categoryName ps llm description merchant amount
          availableCategories userId = Inl e \<longrightarrow>
        (\<exists>uid. userId = Some uid \<and> uid \<noteq> []
           \<and> findSimilarPattern up categoryName ps uid description merchant = Inl e))"
proof (intro conjI impI)
  show "llmCategorize TransportFailure availableCategories =
      \<lparr>category = firstOrUncategorized availableCategories, confidence = Num 0.1,
       reasoning = ''Failed to get LLM categorization''\<rparr>"
    by (simp add: llmCategorize_def transportFallback_def)
next
  assume "response = NotAString \<or> response = NoJsonObject \<or> response = InvalidJson
        \<or> (\<exists>parsed. response = JsonObject parsed \<and> pj_category parsed = None)"
  then show "llmCategorize (Responded response) availableCategories =
          \<lparr>category = firstOrUncategorized availableCategories, confidence = Num 0.1,
           reasoning = ''Could not parse LLM response''\<rparr>"
    by (auto simp: llmCategorize_def parseCategorizationResponse_def parseFallback_def
                   findClosestCategory_def)
next
  assume "availableCategories = c # rest \<and> c \<noteq> []"
  then show "firstOrUncategorized availableCategories = c"
    by (simp add: firstOrUncategorized_def orElse_def)
next
  assume "availableCategories = [] \<or> availableCategories = [] # rest"
  then show "firstOrUncategorized availableCategories = ''Uncategorized''"
    by (auto simp: firstOrUncategorized_def orElse_def)
next
  assume "categorizeTransaction up categoryName ps llm description merchant amount
          availableCategories userId = Inl e"
  then show "\<exists>uid. userId = Some uid \<and> uid \<noteq> []
           \<and> findSimilarPattern up categoryName ps uid description merchant = Inl e"
    by (rule categorizeTransaction_InlD)
qed

theorem llm_fallback_never_raises_witness:
  "llmCategorize (Responded NoJsonObject) [''Salary'', ''Groceries & Food''] =
      \<lparr>category = ''Salary'', confidence = Num 0.1, reasoning = ''Could not parse LLM response''\<rparr>
   \<and> llmCategorize TransportFailure [] =
      \<lparr>category = ''Uncategorized'', confidence = Num 0.1,
       reasoning = ''Failed to get LLM categorization''\<rparr>
   \<and> findSimilarPattern False categoryNames [] ''u1'' ''xyzzy'' None = Inl DatabaseError"
proof -
  let ?av = "[''Salary'', ''Groceries & Food'']"
  note T1 = llm_fallback_never_raises
    [where availableCategories = ?av and response = NoJsonObject and c = "''Salary''"
       and rest = "[''Groceries & Food'']"]
  have h1: "NoJsonObject = NotAString \<or> NoJsonObject = NoJsonObject \<or> NoJsonObject = InvalidJson
        \<or> (\<exists>parsed. NoJsonObject = JsonObject parsed \<and> pj_category parsed = None)" by simp
  have h2: "?av = ''Salary'' # [''Groceries & Food''] \<and> ''Salary'' \<noteq> []" by simp
  have a: "llmCategorize (Responded NoJsonObject) ?av =
          \<lparr>category = firstOrUncategorized ?av, confidence = Num 0.1,
           reasoning = ''Could not parse LLM response''\<rparr>"
    by (rule T1 [THEN conjunct2, THEN conjunct1, THEN mp, OF h1])
  have b: "firstOrUncategorized ?av = ''Salary''"
    by (rule T1 [THEN conjunct2, THEN conjunct2, THEN conjunct1, THEN mp, OF h2])
  from a b have r1: "llmCategorize (Responded NoJsonObject) ?av =
      \<lparr>category = ''Salary'', confidence = Num 0.1, reasoning = ''Could not parse LLM response''\<rparr>"
    by simp
  note T2 = llm_fallback_never_raises [where availableCategories = "[]"]
  have h3: "([] :: string list) = [] \<or> ([] :: string list) = [] # rest" for rest by simp
  have c: "llmCategorize TransportFailure [] =
      \<lparr>category = firstOrUncategorized [], confidence = Num 0.1,
       reasoning = ''Failed to get LLM categorization''\<rparr>"
    by (rule T2 [THEN conjunct1])
  have d: "firstOrUncategorized [] = ''Uncategorized''"
    by (rule T2 [THEN conjunct2, THEN conjunct2, THEN conjunct2, THEN conjunct1, THEN mp, OF h3])
  from c d have r2: "llmCategorize TransportFailure [] =
      \<lparr>category = ''Uncategorized'', confidence = Num 0.1,
       reasoning = ''Failed to get LLM categorization''\<rparr>"
    by simp
  have h4: "categorizeTransaction False categoryNames [] TransportFailure ''xyzzy'' None 250 ?av
              (Some ''u1'') = Inl DatabaseError"
    by code_simp
  have "\<exists>uid. Some ''u1'' = Some uid \<and> uid \<noteq> []
           \<and> findSimilarPattern False categoryNames [] uid ''xyzzy'' None = Inl DatabaseError"
    by (rule llm_fallback_never_raises
          [where up = False and categoryName = categoryNames and ps = "[]"
             and llm = TransportFailure and description = "''xyzzy''" and merchant = None
             and amount = 250 and availableCategories = ?av and userId = "Some ''u1''"
             and e = DatabaseError,
           THEN conjunct2, THEN conjunct2, THEN conjunct2, THEN conjunct2, THEN mp, OF h4])
  then have r3: "findSimilarPattern False categoryNames [] ''u1'' ''xyzzy'' None = Inl DatabaseError"
    by simp
  from r1 r2 r3 show ?thesis by (intro conjI)
qed

section \<open>Claim C5: when a suggestion is applied\<close>

lemma recategorizeStep_changes_only_if:
  assumes "recategorizeStep classify categories userId t (table, n) \<noteq> (table, n)"
  shows "\<exists>suggestion newCategory.
           classify (txn_description t) (txn_merchant t) (abs (txn_amount t))
             (map cat_name categories) (Some userId) = Inr suggestion
           \<and> findFirst (\<lambda>cat. cat_name cat = category suggestion) categories = Some newCategory
           \<and> Some (cat_id newCategory) \<noteq> txn_categoryId t
           \<and> jsGreater (confidence suggestion) 0.7
           \<and> recategorizeStep classify categories userId t (table, n) =
               (updateTransaction table (txn_id t) (applySuggestion (cat_id newCategory) suggestion),
                n + 1)"
  using assms by (auto simp: recategorizeStep_def split: sum.splits option.splits if_splits)

lemma applySuggestion_fields:
  "txn_categoryId (applySuggestion cid suggestion r) = Some cid
   \<and> txn_llmCategorized (applySuggestion cid suggestion r)
   \<and> txn_llmConfidence (applySuggestion cid suggestion r) = Some (confidence suggestion)"
  by (simp add: applySuggestion_def)

lemma recategorizeTransaction_changes_only_if:
  assumes "recategorizeTransaction classify cats table transactionId = Inr (table', True)"
  shows "\<exists>t suggestion newCategory.
           findFirst (\<lambda>t. txn_id t = transactionId) table = Some t
           \<and> classify (txn_description t) (txn_merchant t) (abs (txn_amount t))
               (map cat_name (categoriesFor cats (txn_userId t))) (Some (txn_userId t))
               = Inr suggestion
           \<and> findFirst (\<lambda>cat. cat_name cat = category suggestion)
               (categoriesFor cats (txn_userId t)) = Some newCategory
           \<and> jsGreater (confidence suggestion) 0.7
           \<and> table' = updateTransaction table transactionId
                         (applySuggestion (cat_id newCategory) suggestion)"
  using assms
  by (auto simp: recategorizeTransaction_def Let_def split: sum.splits option.splits if_splits)

lemma recategorizeTransaction_same_category:
  assumes "findFirst (\<lambda>t. txn_id t = transactionId) table = Some t"
    and "classify (txn_description t) (txn_merchant t) (abs (txn_amount t))
           (map cat_name (categoriesFor cats (txn_userId t))) (Some (txn_userId t))
         = Inr suggestion"
    and "findFirst (\<lambda>cat. cat_name cat = category suggestion)
           (categoriesFor cats (txn_userId t)) = Some newCategory"
    and "txn_categoryId t = Some (cat_id newCategory)"
    and "jsGreater (confidence suggestion) 0.7"
  shows "recategorizeTransaction classify cats table transactionId =
           Inr (updateTransaction table transactionId
                  (applySuggestion (cat_id newCategory) suggestion), True)"
  using assms by (simp add: recategorizeTransaction_def Let_def)

lemma recategorizeStep_same_category:
  assumes "classify (txn_description t) (txn_merchant t) (abs (txn_amount t))
             (map cat_name categories) (Some userId) = Inr suggestion"
    and "findFirst (\<lambda>cat. cat_name cat = category suggestion) categories = Some newCategory"
    and "txn_categoryId t = Some (cat_id newCategory)"
  shows "recategorizeStep classify categories userId t (table, n) = (table, n)"
  using assms by (simp add: recategorizeStep_def)

text \<open>
  Claim C5. Both operations apply a suggestion only if its confidence is strictly above
  0.7, and an applied suggestion sets \<open>llmCategorized\<close> and stores the confidence (the
  lemmas above). \<open>recategorizeAllTransactions\<close> also requires the suggested category to
  differ from the current one; \<open>recategorizeTransaction\<close> has no such test. For a
  transaction filed by hand under Groceries and Food, whose description the quick rules
  resolve to the same category with confidence 0.95, the bulk operation changes nothing
  and counts no update, while the single operation writes the same category again,
  marks the transaction as categorized by the LLM and reports an update.
\<close>

theorem recategorizeTransaction_reapplies_same_category:
  "recategorizeTransaction offlineClassifier [foodCategory] [swiggyTransaction] ''t1''
     = Inr ([swiggyTransaction\<lparr>txn_llmCategorized := True,
                                txn_llmConfidence := Some (Num 0.95)\<rparr>], True)
   \<and> recategorizeAllTransactions offlineClassifier [foodCategory] [swiggyTransaction] ''u1''
       = ([swiggyTransaction], (0, 1))"
  by code_simp

section \<open>Claim C6: parsing dates\<close>

lemma parseDate_examples:
  "parseDate ''19 Oct 2015'' = Some (Date 2015 9 19)"
  "parseDate ''15/01/23'' = Some (Date 2023 0 15)"
  "parseDate ''15/01/75'' = Some (Date 1975 0 15)"
  "parseDate ''15-01-2023'' = Some (Date 2023 0 15)"
  "parseDate ''yesterday'' = None"
  by code_simp+

lemma parseRow_unparseable_date:
  "dateColumn row = Some dateValue \<Longrightarrow> parseDate dateValue = None \<Longrightarrow>
     parseRow dateColumn rest row = None"
  by (simp add: parseRow_def)

lemma parseRows_drops_unparseable:
  assumes "dateColumn row = Some dateValue" "parseDate dateValue = None"
  shows "parseRows dateColumn rest (before @ row # after)
           = parseRows dateColumn rest before @ parseRows dateColumn rest after"
  using assms by (simp add: parseRows_def List.map_filter_def parseRow_def)

lemma digit_not_space: "isDigit c \<Longrightarrow> \<not> isSpace c"
  by (auto simp: isDigit_def isSpace_def)

lemma comma_not_digit: "\<not> isDigit (CHR '','')"
  by (simp add: isDigit_def)

lemma dropWhile_hd: "xs \<noteq> [] \<Longrightarrow> \<not> P (hd xs) \<Longrightarrow> dropWhile P xs = xs"
  by (cases xs) auto

lemma slash_facts: "\<not> isDigit (CHR ''/'')" "\<not> isSpace (CHR ''/'')"
  by (simp_all add: isDigit_def isSpace_def)

lemma takeWhile_digits:
  "list_all isDigit ds \<Longrightarrow> \<not> isDigit c \<Longrightarrow> takeWhile isDigit (ds @ c # r) = ds"
  by (induction ds) auto

lemma digitRun_digits:
  assumes "list_all isDigit ds" "lo \<le> length ds" "length ds \<le> hi" "\<not> isDigit c"
  shows "digitRun lo hi (ds @ c # r) = Some (ds, c # r)"
  using assms by (simp add: digitRun_def takeWhile_digits Let_def)

lemma trim_digits:
  assumes "s \<noteq> []" "isDigit (hd s)" "isDigit (last s)"
  shows "trim s = s"
proof -
  from assms have 1: "dropWhile isSpace s = s"
    by (intro dropWhile_hd) (simp_all add: digit_not_space)
  from assms have "rev s \<noteq> []" "\<not> isSpace (hd (rev s))"
    by (simp_all add: hd_rev digit_not_space)
  then have 2: "dropWhile isSpace (rev s) = rev s"
    by (rule dropWhile_hd)
  show ?thesis by (simp add: trim_def 1 2)
qed

lemma parseDate_slash_date_four_digit_year:
  assumes dd: "list_all isDigit dd" "1 \<le> length dd" "length dd \<le> 2"
    and mm: "list_all isDigit mm" "1 \<le> length mm" "length mm \<le> 2"
    and yy: "list_all isDigit yyyy" "length yyyy = 4"
  shows "parseDate (dd @ ''/'' @ mm @ ''/'' @ yyyy) =
           Some (Date (if parseInt (take 2 yyyy) < 50 then 2000 + parseInt (take 2 yyyy)
                       else 1900 + parseInt (take 2 yyyy))
                      (parseInt mm - 1) (parseInt dd))"
proof -
  let ?s = "dd @ ''/'' @ mm @ ''/'' @ yyyy"
  have ne: "dd \<noteq> []" "yyyy \<noteq> []" using dd yy by auto
  have hd: "isDigit (hd ?s)" using dd ne by (cases dd) auto
  have "last ?s = last yyyy" using ne by simp
  moreover have "isDigit (last yyyy)" using yy ne by (simp add: list_all_iff)
  ultimately have la: "isDigit (last ?s)" by simp
  have t: "trim ?s = ?s" using hd la by (intro trim_digits) simp_all
  have "\<forall>c \<in> set ?s. c \<noteq> CHR '',''"
    using dd mm yy comma_not_digit by (auto simp: list_all_iff)
  then have f: "filter (\<lambda>c. c \<noteq> CHR '','') ?s = ?s" by (simp only: filter_id_conv)
  have d0: "dropWhile isSpace ?s = ?s"
    using hd ne by (intro dropWhile_hd) (simp_all add: digit_not_space)
  have r1: "digitRun 1 2 ?s = Some (dd, CHR ''/'' # mm @ ''/'' @ yyyy)"
    using digitRun_digits [OF dd(1) dd(2) dd(3) slash_facts(1)] by simp
  have r2: "digitRun 1 2 (mm @ ''/'' @ yyyy) = Some (mm, CHR ''/'' # yyyy)"
    using digitRun_digits [OF mm(1) mm(2) mm(3) slash_facts(1)] by simp
  have m1: "matchDDMMMYYYY ?s = None"
    unfolding matchDDMMMYYYY_def d0 r1 by (simp add: spaces1_def slash_facts)
  have e: "digitsExact 2 yyyy = Some (take 2 yyyy, drop 2 yyyy)"
    using yy by (simp add: digitsExact_def list_all_iff) (meson in_set_takeD)
  have l1: "lit (CHR ''/'') (CHR ''/'' # mm @ ''/'' @ yyyy) = Some (mm @ ''/'' @ yyyy)"
    by (simp add: lit_def)
  have l2: "lit (CHR ''/'') (CHR ''/'' # yyyy) = Some yyyy"
    by (simp add: lit_def)
  have m2: "matchDDMMYY ?s = Some (dd, mm, take 2 yyyy)"
    unfolding matchDDMMYY_def d0 r1 by (simp only: option.case prod.case l1 r2 l2 e)
  show ?thesis
    unfolding parseDate_def Let_def t f m1 m2 by simp
qed

text \<open>
  Claim C6. The formats are tried in the order of the claim, the years of two digits get
  their century, and a row whose date does not parse is dropped (the lemmas above).
  The pattern for \<open>DD/MM/YY\<close> has no \<open>$\<close> at its end, so it also matches the first two
  digits of a year of four digits, and it is tried before the patterns for
  \<open>DD/MM/YYYY\<close>: the string \<open>15/01/2023\<close> is read as day 15, month 1, year 20, and the
  result is 15 January 2020 instead of 15 January 2023. The lemma
  \<open>parseDate_slash_date_four_digit_year\<close> shows the same for every string of that
  form: the year is made from the first two digits of the four.
\<close>

theorem parseDate_four_digit_year_truncated:
  "parseDate ''15/01/2023'' = Some (Date 2020 0 15)"
  by code_simp

section \<open>Claim C7: the manual correction route\<close>

text \<open>
  Claim C7 lets the update of the transaction and the learning record happen both or
  visibly neither. The route updates the transaction and then calls
  \<open>recordUserCorrection\<close>, which catches and logs every error of its own queries. When
  those queries fail the transaction is updated, no pattern is written, and the caller
  receives the answer 200 that says the correction was learned.
\<close>

theorem putCategory_not_atomic_counterexample:
  "putCategory True False 5 [foodCategory, salaryCategory] ([autoTransaction], []) ''u1'' ''t1''
       (Some ''salary'')
     = (Response 200 ''Transaction category updated and learned for future use'',
        ([autoTransaction\<lparr>txn_categoryId := Some ''salary'', txn_llmCategorized := False,
                           txn_llmConfidence := None\<rparr>], []))"
  by code_simp

lemma putCategory_rejects:
  assumes "findFirst (\<lambda>c. cat_id c = cid \<and> (cat_userId c = Some userId \<or> cat_isDefault c)) cats
             = None"
  shows "snd (putCategory up learnUp now cats (table, ps) userId transactionId (Some cid))
           = (table, ps)
         \<and> (\<exists>code msg. fst (putCategory up learnUp now cats (table, ps) userId transactionId
                              (Some cid)) = Response code msg \<and> code \<noteq> 200)"
  using assms by (auto simp: putCategory_def split: option.splits)

lemma putCategory_success:
  assumes "fst (putCategory up learnUp now cats (table, ps) userId transactionId (Some cid))
             = Response 200 msg"
  shows "\<exists>t. findFirst (\<lambda>t. txn_id t = transactionId \<and> txn_userId t = userId) table = Some t
           \<and> snd (putCategory up learnUp now cats (table, ps) userId transactionId (Some cid))
               = (updateTransaction table transactionId (manualCorrection cid),
                  recordUserCorrection learnUp now ps userId (txn_description t)
                    (txn_merchant t) cid 1)"
  using assms by (auto simp: putCategory_def split: option.splits if_splits)

lemma updateTransaction_manualCorrection:
  assumes "r \<in> set (updateTransaction table transactionId (manualCorrection cid))"
    and "txn_id r = transactionId"
  shows "txn_categoryId r = Some cid \<and> \<not> txn_llmCategorized r \<and> txn_llmConfidence r = None"
proof -
  from assms(1) obtain r0 where r0: "r0 \<in> set table"
    "r = (if txn_id r0 = transactionId then manualCorrection cid r0 else r0)"
    by (auto simp: updateTransaction_def)
  show ?thesis
  proof (cases "txn_id r0 = transactionId")
    case True
    with r0 show ?thesis by (simp add: manualCorrection_def)
  next
    case False
    with r0 assms(2) show ?thesis by simp
  qed
qed

lemma updateTransaction_others:
  "filter (\<lambda>r. txn_id r \<noteq> transactionId) (updateTransaction table transactionId (manualCorrection cid))
     = filter (\<lambda>r. txn_id r \<noteq> transactionId) table"
  by (induction table) (auto simp: updateTransaction_def manualCorrection_def)

lemma putCategory_accepts:
  assumes "cid \<noteq> []" "up"
    and "findFirst (\<lambda>t. txn_id t = transactionId \<and> txn_userId t = userId) table = Some t"
    and "findFirst (\<lambda>c. cat_id c = cid \<and> (cat_userId c = Some userId \<or> cat_isDefault c)) cats
           = Some c"
  shows "putCategory up learnUp now cats (table, ps) userId transactionId (Some cid)
           = (Response 200 ''Transaction category updated and learned for future use'',
              (updateTransaction table transactionId (manualCorrection cid),
               recordUserCorrection learnUp now ps userId (txn_description t)
                 (txn_merchant t) cid 1))"
  using assms by (simp add: putCategory_def)

lemma recordUserCorrection_records:
  assumes "plainText description"
  shows "\<exists>p \<in> set (recordUserCorrection True now ps userId description merchant cid 1).
      pat_userId p = userId \<and> toLowerCase (pat_description p) = toLowerCase description
      \<and> (pat_merchant p = merchant \<or> pat_merchant p = orNull merchant)
      \<and> pat_categoryId p = cid \<and> pat_isUserCorrection p \<and> pat_confidence p \<ge> 1
      \<and> ((\<forall>q \<in> set ps. pat_confidence q \<le> 1) \<longrightarrow> pat_confidence p = 1)"
proof (cases "findIndex (keyMatch userId description merchant) ps")
  case None
  let ?new = "\<lparr>pat_userId = userId, pat_description = description, pat_merchant = merchant,
               pat_categoryId = cid, pat_confidence = 1, pat_isUserCorrection = True,
               pat_updatedAt = now\<rparr>"
  have "recordUserCorrection True now ps userId description merchant cid 1 = ps @ [?new]"
    by (simp add: recordUserCorrection_def firstWhere_plain [OF assms] None)
  then have "?new \<in> set (recordUserCorrection True now ps userId description merchant cid 1)"
    by simp
  then show ?thesis by (rule rev_bexI) simp
next
  case (Some i)
  let ?upd = "(ps ! i)\<lparr>pat_categoryId := cid, pat_confidence := max 1 (pat_confidence (ps ! i)),
                        pat_isUserCorrection := True, pat_updatedAt := now\<rparr>"
  from findIndex_SomeD [OF Some] have i: "i < length ps" "keyMatch userId description merchant (ps ! i)"
    by simp_all
  have "firstWhere (keyMatch userId description merchant) (keyRaises userId description) ps
          = Inr (Some i)"
    by (simp add: firstWhere_plain [OF assms] Some)
  then have "recordUserCorrection True now ps userId description merchant cid 1 = ps[i := ?upd]"
    by (rule recordUserCorrection_existing)
  with i have mem: "?upd \<in> set (recordUserCorrection True now ps userId description merchant cid 1)"
    by (simp add: set_update_memI)
  have le: "(\<forall>q \<in> set ps. pat_confidence q \<le> 1) \<longrightarrow> max 1 (pat_confidence (ps ! i)) = 1"
  proof
    assume "\<forall>q \<in> set ps. pat_confidence q \<le> 1"
    moreover have "ps ! i \<in> set ps" using i(1) by simp
    ultimately have "pat_confidence (ps ! i) \<le> 1" by blast
    then show "max 1 (pat_confidence (ps ! i)) = 1" by simp
  qed
  from mem show ?thesis
    by (rule rev_bexI) (use i(2) le in \<open>simp add: keyMatch_plain [OF assms]\<close>)
qed

lemma recordUserCorrection_reads_wildcards:
  "recordUserCorrection True 5 [(acmeRow None 0.6 1)\<lparr>pat_description := ''ACMEXCORP PAYMENT''\<rparr>]
     ''u1'' ''ACME_CORP PAYMENT'' None ''c1'' 1
   = [(acmeRow None 1 5)\<lparr>pat_description := ''ACMEXCORP PAYMENT'', pat_categoryId := ''c1''\<rparr>]
   \<and> recordUserCorrection True 5 [acmeRow None 0.6 1] ''u1'' (''ACME'' @ [CHR 0x5C]) None ''c1'' 1
     = [acmeRow None 0.6 1]"
  by code_simp

text \<open>
  Claim C7, amended. A category that neither belongs to the user nor is a default
  category is rejected: nothing is written and the answer is not 200. When the request
  names a category, the queries of the route answer, and the transaction of the user and
  the category are found, the answer is 200 with the message that the correction was
  learned, whether the queries of the learning service succeed or fail: the transaction
  with the given id has the requested category, \<open>llmCategorized\<close> false and
  \<open>llmConfidence\<close> null, the other transactions are unchanged, and the learning record
  has been attempted after the update. Every answer 200 comes with that update and that
  attempt. When the queries of the learning service succeed, for a description
  without the characters that \<open>ILIKE\<close> reads specially, a pattern for the user and the
  description of the transaction (up to case), with its merchant, the requested
  category, the user-correction flag and a confidence of at least 1.0 (exactly 1.0 when
  no stored confidence exceeds 1.0) is in the store; when they fail, the store is
  unchanged while the transaction stays updated.
\<close>

theorem putCategory_effects:
  "(findFirst (\<lambda>c. cat_id c = cid \<and> (cat_userId c = Some userId \<or> cat_isDefault c)) cats = None
      \<longrightarrow>
      snd (putCategory up learnUp now cats (table, ps) userId transactionId (Some cid)) = (table, ps)
      \<and> (\<exists>code msg. fst (putCategory up learnUp now cats (table, ps) userId transactionId
                           (Some cid)) = Response code msg \<and> code \<noteq> 200))
   \<and> (cid \<noteq> [] \<and> up
        \<and> findFirst (\<lambda>t. txn_id t = transactionId \<and> txn_userId t = userId) table = Some found
        \<and> findFirst (\<lambda>c. cat_id c = cid \<and> (cat_userId c = Some userId \<or> cat_isDefault c)) cats
            = Some cat \<longrightarrow>
        putCategory up learnUp now cats (table, ps) userId transactionId (Some cid)
          = (Response 200 ''Transaction category updated and learned for future use'',
             (updateTransaction table transactionId (manualCorrection cid),
              recordUserCorrection learnUp now ps userId (txn_description found)
                (txn_merchant found) cid 1)))
   \<and> (fst (putCategory up learnUp now cats (table, ps) userId transactionId (Some cid))
         = Response 200 msg \<longrightarrow>
        (\<exists>t. findFirst (\<lambda>t. txn_id t = transactionId \<and> txn_userId t = userId) table = Some t
           \<and> snd (putCategory up learnUp now cats (table, ps) userId transactionId (Some cid))
               = (updateTransaction table transactionId (manualCorrection cid),
                  recordUserCorrection learnUp now ps userId (txn_description t)
                    (txn_merchant t) cid 1)))
   \<and> (r \<in> set (updateTransaction table transactionId (manualCorrection cid))
        \<and> txn_id r = transactionId \<longrightarrow>
        txn_categoryId r = Some cid \<and> \<not> txn_llmCategorized r \<and> txn_llmConfidence r = None)
   \<and> filter (\<lambda>r. txn_id r \<noteq> transactionId)
        (updateTransaction table transactionId (manualCorrection cid))
       = filter (\<lambda>r. txn_id r \<noteq> transactionId) table
   \<and> (learnUp \<and> plainText description \<longrightarrow>
        (\<exists>p \<in> set (recordUserCorrection learnUp now ps userId description merchant cid 1).
           pat_userId p = userId \<and> toLowerCase (pat_description p) = toLowerCase description
           \<and> (pat_merchant p = merchant \<or> pat_merchant p = orNull merchant)
           \<and> pat_categoryId p = cid \<and> pat_isUserCorrection p \<and> pat_confidence p \<ge> 1
           \<and> ((\<forall>q \<in> set ps. pat_confidence q \<le> 1) \<longrightarrow> pat_confidence p = 1)))
   \<and> (\<not> learnUp \<longrightarrow>
        recordUserCorrection learnUp now ps userId description merchant cid 1 = ps)"
proof (intro conjI impI)
  assume a: "findFirst (\<lambda>c. cat_id c = cid \<and> (cat_userId c = Some userId \<or> cat_isDefault c)) cats
               = None"
  from putCategory_rejects [OF a]
  show "snd (putCategory up learnUp now cats (table, ps) userId transactionId (Some cid))
          = (table, ps)"
    and "\<exists>code msg. fst (putCategory up learnUp now cats (table, ps) userId transactionId
                           (Some cid)) = Response code msg \<and> code \<noteq> 200"
    by blast+
next
  assume a: "cid \<noteq> [] \<and> up
        \<and> findFirst (\<lambda>t. txn_id t = transactionId \<and> txn_userId t = userId) table = Some found
        \<and> findFirst (\<lambda>c. cat_id c = cid \<and> (cat_userId c = Some userId \<or> cat_isDefault c)) cats
            = Some cat"
  show "putCategory up learnUp now cats (table, ps) userId transactionId (Some cid)
          = (Response 200 ''Transaction category updated and learned for future use'',
             (updateTransaction table transactionId (manualCorrection cid),
              recordUserCorrection learnUp now ps userId (txn_description found)
                (txn_merchant found) cid 1))"
    by (rule putCategory_accepts
          [OF a [THEN conjunct1] a [THEN conjunct2, THEN conjunct1]
              a [THEN conjunct2, THEN conjunct2, THEN conjunct1]
              a [THEN conjunct2, THEN conjunct2, THEN conjunct2]])
next
  assume "fst (putCategory up learnUp now cats (table, ps) userId transactionId (Some cid))
         = Response 200 msg"
  then show "\<exists>t. findFirst (\<lambda>t. txn_id t = transactionId \<and> txn_userId t = userId) table = Some t
           \<and> snd (putCategory up learnUp now cats (table, ps) userId transactionId (Some cid))
               = (updateTransaction table transactionId (manualCorrection cid),
                  recordUserCorrection learnUp now ps userId (txn_description t)
                    (txn_merchant t) cid 1)"
    by (rule putCategory_success)
next
  assume a: "r \<in> set (updateTransaction table transactionId (manualCorrection cid))
        \<and> txn_id r = transactionId"
  from updateTransaction_manualCorrection [OF a [THEN conjunct1] a [THEN conjunct2]]
  show "txn_categoryId r = Some cid" and "\<not> txn_llmCategorized r"
    and "txn_llmConfidence r = None"
    by simp_all
next
  show "filter (\<lambda>r. txn_id r \<noteq> transactionId)
        (updateTransaction table transactionId (manualCorrection cid))
       = filter (\<lambda>r. txn_id r \<noteq> transactionId) table"
    by (rule updateTransaction_others)
next
  assume "learnUp \<and> plainText description"
  then show "\<exists>p \<in> set (recordUserCorrection learnUp now ps userId description merchant cid 1).
           pat_userId p = userId \<and> toLowerCase (pat_description p) = toLowerCase description
           \<and> (pat_merchant p = merchant \<or> pat_merchant p = orNull merchant)
           \<and> pat_categoryId p = cid \<and> pat_isUserCorrection p \<and> pat_confidence p \<ge> 1
           \<and> ((\<forall>q \<in> set ps. pat_confidence q \<le> 1) \<longrightarrow> pat_confidence p = 1)"
    using recordUserCorrection_records [of description now ps userId merchant cid] by simp
next
  assume "\<not> learnUp"
  then show "recordUserCorrection learnUp now ps userId description merchant cid 1 = ps"
    by (simp add: recordUserCorrection_def)
qed

theorem putCategory_effects_witness:
  "snd (putCategory True True 5 [foodCategory, salaryCategory] ([autoTransaction], []) ''u1'' ''t1''
          (Some ''nope'')) = ([autoTransaction], [])
   \<and> putCategory True False 5 [foodCategory, salaryCategory]
        ([autoTransaction], [acmeRow None 0.6 1]) ''u1'' ''t1'' (Some ''salary'')
       = (Response 200 ''Transaction category updated and learned for future use'',
          ([autoTransaction\<lparr>txn_categoryId := Some ''salary'', txn_llmCategorized := False,
                            txn_llmConfidence := None\<rparr>],
           [acmeRow None 0.6 1]))
   \<and> snd (putCategory True True 5 [foodCategory, salaryCategory] ([autoTransaction], []) ''u1''
            ''t1'' (Some ''salary''))
       = ([autoTransaction\<lparr>txn_categoryId := Some ''salary'', txn_llmCategorized := False,
                           txn_llmConfidence := None\<rparr>],
          [acmeRow None 1 5])
   \<and> (\<exists>p \<in> set (recordUserCorrection True 5 [acmeRow None 0.6 1] ''u1'' ''acme corp payment''
                    None ''salary'' 1).
         pat_userId p = ''u1'' \<and> pat_categoryId p = ''salary'' \<and> pat_isUserCorrection p
         \<and> pat_confidence p = 1)
   \<and> recordUserCorrection False 5 [acmeRow None 0.6 1] ''u1'' ''ACME CORP PAYMENT'' None ''salary'' 1
       = [acmeRow None 0.6 1]"
proof -
  let ?cats = "[foodCategory, salaryCategory]"
  have h1: "findFirst (\<lambda>c. cat_id c = ''nope'' \<and> (cat_userId c = Some ''u1'' \<or> cat_isDefault c))
              ?cats = None"
    by code_simp
  have r1: "snd (putCategory True True 5 ?cats ([autoTransaction], []) ''u1'' ''t1''
                   (Some ''nope'')) = ([autoTransaction], [])"
    by (rule putCategory_effects
          [where cid = "''nope''" and userId = "''u1''" and cats = ?cats and up = True
             and learnUp = True and now = 5 and table = "[autoTransaction]" and ps = "[]"
             and transactionId = "''t1''",
           THEN conjunct1, THEN mp, OF h1, THEN conjunct1])
  have h0: "''salary'' \<noteq> [] \<and> True
        \<and> findFirst (\<lambda>t. txn_id t = ''t1'' \<and> txn_userId t = ''u1'') [autoTransaction]
            = Some autoTransaction
        \<and> findFirst (\<lambda>c. cat_id c = ''salary''
                          \<and> (cat_userId c = Some ''u1'' \<or> cat_isDefault c)) ?cats
            = Some salaryCategory"
    by code_simp
  have e0: "putCategory True False 5 ?cats ([autoTransaction], [acmeRow None 0.6 1]) ''u1'' ''t1''
              (Some ''salary'')
          = (Response 200 ''Transaction category updated and learned for future use'',
             (updateTransaction [autoTransaction] ''t1'' (manualCorrection ''salary''),
              recordUserCorrection False 5 [acmeRow None 0.6 1] ''u1''
                (txn_description autoTransaction) (txn_merchant autoTransaction) ''salary'' 1))"
    by (rule putCategory_effects
          [where cid = "''salary''" and userId = "''u1''" and cats = ?cats and up = True
             and learnUp = False and now = 5 and table = "[autoTransaction]"
             and ps = "[acmeRow None 0.6 1]" and transactionId = "''t1''"
             and found = autoTransaction and cat = salaryCategory,
           THEN conjunct2, THEN conjunct1, THEN mp, OF h0])
  have u: "updateTransaction [autoTransaction] ''t1'' (manualCorrection ''salary'')
             = [autoTransaction\<lparr>txn_categoryId := Some ''salary'', txn_llmCategorized := False,
                                 txn_llmConfidence := None\<rparr>]"
    by code_simp
  have l0: "recordUserCorrection False 5 [acmeRow None 0.6 1] ''u1''
              (txn_description autoTransaction) (txn_merchant autoTransaction) ''salary'' 1
            = [acmeRow None 0.6 1]"
    by code_simp
  have r0: "putCategory True False 5 ?cats ([autoTransaction], [acmeRow None 0.6 1]) ''u1'' ''t1''
              (Some ''salary'')
       = (Response 200 ''Transaction category updated and learned for future use'',
          ([autoTransaction\<lparr>txn_categoryId := Some ''salary'', txn_llmCategorized := False,
                            txn_llmConfidence := None\<rparr>],
           [acmeRow None 0.6 1]))"
    unfolding e0 u l0 by (rule refl)
  have h2: "fst (putCategory True True 5 ?cats ([autoTransaction], []) ''u1'' ''t1''
                   (Some ''salary''))
              = Response 200 ''Transaction category updated and learned for future use''"
    by code_simp
  have "\<exists>t. findFirst (\<lambda>t. txn_id t = ''t1'' \<and> txn_userId t = ''u1'') [autoTransaction] = Some t
           \<and> snd (putCategory True True 5 ?cats ([autoTransaction], []) ''u1'' ''t1''
                    (Some ''salary''))
               = (updateTransaction [autoTransaction] ''t1'' (manualCorrection ''salary''),
                  recordUserCorrection True 5 [] ''u1'' (txn_description t)
                    (txn_merchant t) ''salary'' 1)"
    by (rule putCategory_effects
          [where cid = "''salary''" and userId = "''u1''" and cats = ?cats and up = True
             and learnUp = True and now = 5 and table = "[autoTransaction]" and ps = "[]"
             and transactionId = "''t1''",
           THEN conjunct2, THEN conjunct2, THEN conjunct1, THEN mp, OF h2])
  moreover have "findFirst (\<lambda>t. txn_id t = ''t1'' \<and> txn_userId t = ''u1'') [autoTransaction]
                   = Some autoTransaction"
    by code_simp
  ultimately have s: "snd (putCategory True True 5 ?cats ([autoTransaction], []) ''u1'' ''t1''
                    (Some ''salary''))
               = (updateTransaction [autoTransaction] ''t1'' (manualCorrection ''salary''),
                  recordUserCorrection True 5 [] ''u1'' (txn_description autoTransaction)
                    (txn_merchant autoTransaction) ''salary'' 1)"
    by auto
  have l: "recordUserCorrection True 5 [] ''u1'' (txn_description autoTransaction)
             (txn_merchant autoTransaction) ''salary'' 1 = [acmeRow None 1 5]"
    by code_simp
  from s u l have r2: "snd (putCategory True True 5 ?cats ([autoTransaction], []) ''u1''
            ''t1'' (Some ''salary''))
       = ([autoTransaction\<lparr>txn_categoryId := Some ''salary'', txn_llmCategorized := False,
                           txn_llmConfidence := None\<rparr>],
          [acmeRow None 1 5])"
    by simp
  have h4: "True \<and> plainText ''acme corp payment''" by code_simp
  have le: "\<forall>q \<in> set [acmeRow None 0.6 1]. pat_confidence q \<le> 1" by code_simp
  have "\<exists>p \<in> set (recordUserCorrection True 5 [acmeRow None 0.6 1] ''u1'' ''acme corp payment''
                    None ''salary'' 1).
           pat_userId p = ''u1''
           \<and> toLowerCase (pat_description p) = toLowerCase ''acme corp payment''
           \<and> (pat_merchant p = None \<or> pat_merchant p = orNull None)
           \<and> pat_categoryId p = ''salary'' \<and> pat_isUserCorrection p \<and> pat_confidence p \<ge> 1
           \<and> ((\<forall>q \<in> set [acmeRow None 0.6 1]. pat_confidence q \<le> 1) \<longrightarrow> pat_confidence p = 1)"
    by (rule putCategory_effects
          [where learnUp = True and now = 5 and ps = "[acmeRow None 0.6 1]" and userId = "''u1''"
             and description = "''acme corp payment''" and merchant = None and cid = "''salary''",
           THEN conjunct2, THEN conjunct2, THEN conjunct2, THEN conjunct2, THEN conjunct2,
           THEN conjunct1, THEN mp, OF h4])
  then obtain p where
    p: "p \<in> set (recordUserCorrection True 5 [acmeRow None 0.6 1] ''u1'' ''acme corp payment''
                    None ''salary'' 1)"
       "pat_userId p = ''u1''" "pat_categoryId p = ''salary''" "pat_isUserCorrection p"
       "(\<forall>q \<in> set [acmeRow None 0.6 1]. pat_confidence q \<le> 1) \<longrightarrow> pat_confidence p = 1"
    by blast
  from p(5) le have "pat_confidence p = 1" by (rule mp)
  with p(2-4) have "pat_userId p = ''u1'' \<and> pat_categoryId p = ''salary'' \<and> pat_isUserCorrection p
         \<and> pat_confidence p = 1" by (intro conjI)
  with p(1) have r4: "\<exists>p \<in> set (recordUserCorrection True 5 [acmeRow None 0.6 1] ''u1''
                    ''acme corp payment'' None ''salary'' 1).
         pat_userId p = ''u1'' \<and> pat_categoryId p = ''salary'' \<and> pat_isUserCorrection p
         \<and> pat_confidence p = 1"
    by (rule bexI [rotated])
  have h3: "\<not> False" by simp
  have r3: "recordUserCorrection False 5 [acmeRow None 0.6 1] ''u1'' ''ACME CORP PAYMENT'' None
              ''salary'' 1 = [acmeRow None 0.6 1]"
    by (rule putCategory_effects
          [where learnUp = False and now = 5 and ps = "[acmeRow None 0.6 1]" and userId = "''u1''"
             and description = "''ACME CORP PAYMENT''" and merchant = None and cid = "''salary''",
           THEN conjunct2, THEN conjunct2, THEN conjunct2, THEN conjunct2, THEN conjunct2,
           THEN conjunct2, THEN mp, OF h3])
  from r1 r0 r2 r4 r3 show ?thesis by (intro conjI)
qed

section \<open>Claim C8: purchases and sales of assets\<close>

lemma mapping_key_nonempty: "map_of assetCategoryMapping categoryName = Some info \<Longrightarrow> categoryName \<noteq> []"
  by (auto simp: assetCategoryMapping_def)


lemma handleAssetTransaction_mapped:
  assumes "at_categoryName t = Some categoryName"
    and "map_of assetCategoryMapping categoryName = Some info"
  shows "handleAssetTransaction now assets t userId =
           (case findIndex (assetKey userId (assetNameOf t) info) assets of
              Some i \<Rightarrow>
                if ai_isSale info
                then assets[i := sellAsset now (at_amount t) (assets ! i)]
                else assets[i := buyMore now (at_amount t) (assets ! i)]
            | None \<Rightarrow>
                if \<not> ai_isSale info
                then assets @ [newAsset now userId (assetNameOf t) info t]
                else assets)"
  using assms mapping_key_nonempty [OF assms(2)]
  by (simp add: handleAssetTransaction_def Let_def)

text \<open>
  Claim C8. For a transaction whose category name is in \<open>assetCategoryMapping\<close>: a
  purchase looks for the first asset with the key (user, derived asset name, asset
  category, asset subcategory); when there is none it appends a new asset with that
  key, the absolute amount as current value and quantity 1; when there is one it adds
  the absolute amount to its current value and one to its quantity. A sale subtracts the
  absolute amount from the current value of the asset with the key, not going below
  zero, and the asset is active afterwards exactly when the new value is not zero; a
  sale never adds an asset. Scenario C: a purchase of 10000 creates an asset of value
  10000 and quantity 1, a sale of 4000 leaves 6000 and the asset active, a further sale
  of 6000 leaves 0 and the asset inactive.
\<close>

theorem handleAssetTransaction_purchase_and_sale:
  "(at_categoryName t = Some categoryName
      \<and> map_of assetCategoryMapping categoryName = Some info \<longrightarrow>
      (\<not> ai_isSale info \<and> findIndex (assetKey userId (assetNameOf t) info) assets = None \<longrightarrow>
         handleAssetTransaction now assets t userId
           = assets @ [newAsset now userId (assetNameOf t) info t]
         \<and> assetKey userId (assetNameOf t) info (newAsset now userId (assetNameOf t) info t)
         \<and> ast_currentValue (newAsset now userId (assetNameOf t) info t) = abs (at_amount t)
         \<and> ast_quantity (newAsset now userId (assetNameOf t) info t) = Some 1
         \<and> ast_isActive (newAsset now userId (assetNameOf t) info t))
      \<and> (\<not> ai_isSale info \<and> findIndex (assetKey userId (assetNameOf t) info) assets = Some i \<longrightarrow>
           i < length assets \<and> assetKey userId (assetNameOf t) info (assets ! i)
           \<and> handleAssetTransaction now assets t userId
               = assets[i := (assets ! i)
                   \<lparr>ast_currentValue := ast_currentValue (assets ! i) + abs (at_amount t),
                    ast_quantity :=
                      Some ((case ast_quantity (assets ! i) of None \<Rightarrow> 0 | Some q \<Rightarrow> q) + 1),
                    ast_lastUpdated := now\<rparr>])
      \<and> (ai_isSale info \<and> findIndex (assetKey userId (assetNameOf t) info) assets = Some i \<longrightarrow>
           i < length assets \<and> assetKey userId (assetNameOf t) info (assets ! i)
           \<and> handleAssetTransaction now assets t userId
               = assets[i := (assets ! i)
                   \<lparr>ast_currentValue := max 0 (ast_currentValue (assets ! i) - abs (at_amount t)),
                    ast_isActive := (max 0 (ast_currentValue (assets ! i) - abs (at_amount t)) \<noteq> 0),
                    ast_lastUpdated := now\<rparr>])
      \<and> (ai_isSale info \<and> findIndex (assetKey userId (assetNameOf t) info) assets = None \<longrightarrow>
           handleAssetTransaction now assets t userId = assets)
      \<and> (ai_isSale info \<longrightarrow> length (handleAssetTransaction now assets t userId) = length assets))
   \<and> handleAssetTransaction 1 [] stockBuy ''u1'' = [zerodhaAsset 10000 True 1]
   \<and> handleAssetTransaction 2 [zerodhaAsset 10000 True 1] (stockSale 4000) ''u1''
       = [zerodhaAsset 6000 True 2]
   \<and> handleAssetTransaction 3 [zerodhaAsset 6000 True 2] (stockSale 6000) ''u1''
       = [zerodhaAsset 0 False 3]"
proof (intro conjI impI)
  assume m: "at_categoryName t = Some categoryName
      \<and> map_of assetCategoryMapping categoryName = Some info"
  note H = handleAssetTransaction_mapped [OF m [THEN conjunct1] m [THEN conjunct2]]
  {
    assume a: "ai_isSale info"
    show "length (handleAssetTransaction now assets t userId) = length assets"
      using a by (simp add: H split: option.splits)
  }
  {
    assume a: "\<not> ai_isSale info \<and> findIndex (assetKey userId (assetNameOf t) info) assets = None"
    then show "handleAssetTransaction now assets t userId
           = assets @ [newAsset now userId (assetNameOf t) info t]"
      by (simp add: H)
  }
  {
    assume a: "ai_isSale info \<and> findIndex (assetKey userId (assetNameOf t) info) assets = None"
    then show "handleAssetTransaction now assets t userId = assets"
      by (simp add: H)
  }
  {
    assume a: "\<not> ai_isSale info \<and> findIndex (assetKey userId (assetNameOf t) info) assets = Some i"
    from findIndex_SomeD [OF a [THEN conjunct2]]
    show "i < length assets" "assetKey userId (assetNameOf t) info (assets ! i)" by simp_all
    from a show "handleAssetTransaction now assets t userId
               = assets[i := (assets ! i)
                   \<lparr>ast_currentValue := ast_currentValue (assets ! i) + abs (at_amount t),
                    ast_quantity :=
                      Some ((case ast_quantity (assets ! i) of None \<Rightarrow> 0 | Some q \<Rightarrow> q) + 1),
                    ast_lastUpdated := now\<rparr>]"
      by (simp add: H buyMore_def)
  }
  {
    assume a: "ai_isSale info \<and> findIndex (assetKey userId (assetNameOf t) info) assets = Some i"
    from findIndex_SomeD [OF a [THEN conjunct2]]
    show "i < length assets" "assetKey userId (assetNameOf t) info (assets ! i)" by simp_all
    have "(0 < max 0 (ast_currentValue (assets ! i) - abs (at_amount t)))
            = (max 0 (ast_currentValue (assets ! i) - abs (at_amount t)) \<noteq> 0)"
      by (auto simp: max_def)
    with a show "handleAssetTransaction now assets t userId
               = assets[i := (assets ! i)
                   \<lparr>ast_currentValue := max 0 (ast_currentValue (assets ! i) - abs (at_amount t)),
                    ast_isActive := (max 0 (ast_currentValue (assets ! i) - abs (at_amount t)) \<noteq> 0),
                    ast_lastUpdated := now\<rparr>]"
      by (simp add: H sellAsset_def Let_def)
  }
next
  show "assetKey userId (assetNameOf t) info (newAsset now userId (assetNameOf t) info t)"
    by (simp add: assetKey_def newAsset_def)
  show "ast_currentValue (newAsset now userId (assetNameOf t) info t) = abs (at_amount t)"
    by (simp add: newAsset_def)
  show "ast_quantity (newAsset now userId (assetNameOf t) info t) = Some 1"
    by (simp add: newAsset_def)
  show "ast_isActive (newAsset now userId (assetNameOf t) info t)"
    by (simp add: newAsset_def)
next
  show "handleAssetTransaction 1 [] stockBuy ''u1'' = [zerodhaAsset 10000 True 1]"
    by code_simp
  show "handleAssetTransaction 2 [zerodhaAsset 10000 True 1] (stockSale 4000) ''u1''
       = [zerodhaAsset 6000 True 2]"
    by code_simp
  show "handleAssetTransaction 3 [zerodhaAsset 6000 True 2] (stockSale 6000) ''u1''
       = [zerodhaAsset 0 False 3]"
    by code_simp
qed

theorem handleAssetTransaction_purchase_and_sale_witness:
  "handleAssetTransaction 7 [] stockBuy ''u1'' = [zerodhaAsset 10000 True 7]
   \<and> handleAssetTransaction 8 [zerodhaAsset 6000 True 2] stockBuy ''u1''
       = [(zerodhaAsset 16000 True 8)\<lparr>ast_quantity := Some 2\<rparr>]
   \<and> handleAssetTransaction 9 [zerodhaAsset 10000 True 1] (stockSale 12000) ''u1''
       = [zerodhaAsset 0 False 9]
   \<and> handleAssetTransaction 9 [] (stockSale 12000) ''u1'' = []"
proof -
  let ?sale = "stocksInfo\<lparr>ai_isSale := True\<rparr>"
  have mb: "at_categoryName stockBuy = Some ''Stock Purchase''
      \<and> map_of assetCategoryMapping ''Stock Purchase'' = Some stocksInfo"
    by code_simp
  have ms: "at_categoryName (stockSale 12000) = Some ''Stock Sale''
      \<and> map_of assetCategoryMapping ''Stock Sale'' = Some ?sale"
    by code_simp
  have h1: "\<not> ai_isSale stocksInfo
      \<and> findIndex (assetKey ''u1'' (assetNameOf stockBuy) stocksInfo) [] = None"
    by code_simp
  have "handleAssetTransaction 7 [] stockBuy ''u1''
           = [] @ [newAsset 7 ''u1'' (assetNameOf stockBuy) stocksInfo stockBuy]"
    by (rule handleAssetTransaction_purchase_and_sale
          [where t = stockBuy and categoryName = "''Stock Purchase''" and info = stocksInfo
             and userId = "''u1''" and assets = "[]" and now = 7,
           THEN conjunct1, THEN mp, OF mb, THEN conjunct1, THEN mp, OF h1, THEN conjunct1])
  moreover have "newAsset 7 ''u1'' (assetNameOf stockBuy) stocksInfo stockBuy
                   = zerodhaAsset 10000 True 7"
    by code_simp
  ultimately have r1: "handleAssetTransaction 7 [] stockBuy ''u1'' = [zerodhaAsset 10000 True 7]"
    by simp
  have h2: "\<not> ai_isSale stocksInfo
      \<and> findIndex (assetKey ''u1'' (assetNameOf stockBuy) stocksInfo) [zerodhaAsset 6000 True 2]
          = Some 0"
    by code_simp
  have "handleAssetTransaction 8 [zerodhaAsset 6000 True 2] stockBuy ''u1''
          = [zerodhaAsset 6000 True 2][0 := ([zerodhaAsset 6000 True 2] ! 0)
               \<lparr>ast_currentValue := ast_currentValue ([zerodhaAsset 6000 True 2] ! 0)
                                      + abs (at_amount stockBuy),
                ast_quantity :=
                  Some ((case ast_quantity ([zerodhaAsset 6000 True 2] ! 0) of
                           None \<Rightarrow> 0 | Some q \<Rightarrow> q) + 1),
                ast_lastUpdated := 8\<rparr>]"
    by (rule handleAssetTransaction_purchase_and_sale
          [where t = stockBuy and categoryName = "''Stock Purchase''" and info = stocksInfo
             and userId = "''u1''" and assets = "[zerodhaAsset 6000 True 2]" and now = 8
             and i = 0,
           THEN conjunct1, THEN mp, OF mb, THEN conjunct2, THEN conjunct1, THEN mp, OF h2,
           THEN conjunct2, THEN conjunct2])
  then have r2: "handleAssetTransaction 8 [zerodhaAsset 6000 True 2] stockBuy ''u1''
       = [(zerodhaAsset 16000 True 8)\<lparr>ast_quantity := Some 2\<rparr>]"
    by (simp add: zerodhaAsset_def stockBuy_def)
  have h3: "ai_isSale ?sale
      \<and> findIndex (assetKey ''u1'' (assetNameOf (stockSale 12000)) ?sale)
           [zerodhaAsset 10000 True 1] = Some 0"
    by code_simp
  have "handleAssetTransaction 9 [zerodhaAsset 10000 True 1] (stockSale 12000) ''u1''
          = [zerodhaAsset 10000 True 1][0 := ([zerodhaAsset 10000 True 1] ! 0)
               \<lparr>ast_currentValue :=
                  max 0 (ast_currentValue ([zerodhaAsset 10000 True 1] ! 0)
                         - abs (at_amount (stockSale 12000))),
                ast_isActive :=
                  (max 0 (ast_currentValue ([zerodhaAsset 10000 True 1] ! 0)
                          - abs (at_amount (stockSale 12000))) \<noteq> 0),
                ast_lastUpdated := 9\<rparr>]"
    by (rule handleAssetTransaction_purchase_and_sale
          [where t = "stockSale 12000" and categoryName = "''Stock Sale''" and info = ?sale
             and userId = "''u1''" and assets = "[zerodhaAsset 10000 True 1]" and now = 9
             and i = 0,
           THEN conjunct1, THEN mp, OF ms, THEN conjunct2, THEN conjunct2, THEN conjunct1,
           THEN mp, OF h3, THEN conjunct2, THEN conjunct2])
  then have r3: "handleAssetTransaction 9 [zerodhaAsset 10000 True 1] (stockSale 12000) ''u1''
       = [zerodhaAsset 0 False 9]"
    by (simp add: zerodhaAsset_def stockSale_def)
  have h4: "ai_isSale ?sale
      \<and> findIndex (assetKey ''u1'' (assetNameOf (stockSale 12000)) ?sale) [] = None"
    by code_simp
  have r4: "handleAssetTransaction 9 [] (stockSale 12000) ''u1'' = []"
    by (rule handleAssetTransaction_purchase_and_sale
          [where t = "stockSale 12000" and categoryName = "''Stock Sale''" and info = ?sale
             and userId = "''u1''" and assets = "[]" and now = 9,
           THEN conjunct1, THEN mp, OF ms, THEN conjunct2, THEN conjunct2, THEN conjunct2,
           THEN conjunct1, THEN mp, OF h4])
  from r1 r2 r3 r4 show ?thesis by (intro conjI)
qed

section \<open>Claim C9: Jaccard similarity and its threshold\<close>

lemma findSimilarPattern_descriptionD:
  assumes "findSimilarPattern up categoryName ps userId description merchant = Inr (Some m)"
    and "m_matchType m = Description"
  shows "\<exists>p s. firstSimilar (extractKeywords description)
                  (filter (\<lambda>p. pat_userId p = userId) ps) = Some (p, s)
           \<and> m_confidence m = pat_confidence p * s \<and> m_categoryId m = pat_categoryId p"
  using assms
  by (auto simp: findSimilarPattern_def Let_def split: if_splits option.splits prod.splits sum.splits)

text \<open>
  Claim C9. \<open>calculateSimilarity\<close> is the Jaccard similarity of the two keyword sets:
  for non-empty keyword lists it is the size of the intersection over the size of the
  union; two lists with the same set of keywords give exactly 1 and two lists without a
  common keyword give exactly 0. A match of type \<open>description\<close> returned by
  \<open>findSimilarPattern\<close> always comes from a stored pattern of the user whose similarity
  to the query is strictly above 0.7, and its confidence is the stored confidence times
  that similarity.
\<close>

theorem similarity_is_jaccard_with_threshold:
  "(words1 \<noteq> [] \<and> words2 \<noteq> [] \<longrightarrow>
      calculateSimilarity words1 words2 =
        real (card (set words1 \<inter> set words2)) / real (card (set words1 \<union> set words2)))
   \<and> (same1 \<noteq> [] \<and> set same2 = set same1 \<longrightarrow> calculateSimilarity same1 same2 = 1)
   \<and> (other1 \<noteq> [] \<and> other2 \<noteq> [] \<and> set other1 \<inter> set other2 = {} \<longrightarrow>
        calculateSimilarity other1 other2 = 0)
   \<and> (findSimilarPattern up categoryName ps userId description merchant = Inr (Some m)
        \<and> m_matchType m = Description \<longrightarrow>
        (\<exists>p \<in> set ps. pat_userId p = userId
           \<and> calculateSimilarity (extractKeywords description) (extractKeywords (pat_description p)) > 0.7
           \<and> m_confidence m =
               pat_confidence p
                 * calculateSimilarity (extractKeywords description) (extractKeywords (pat_description p))))"
proof (intro conjI impI)
  assume "words1 \<noteq> [] \<and> words2 \<noteq> []"
  then show "calculateSimilarity words1 words2 =
        real (card (set words1 \<inter> set words2)) / real (card (set words1 \<union> set words2))"
    by (simp add: calculateSimilarity_jaccard)
next
  assume a: "same1 \<noteq> [] \<and> set same2 = set same1"
  then have ne: "same2 \<noteq> []" by auto
  have "card (set same1) > 0" using a by (simp add: card_gt_0_iff)
  then show "calculateSimilarity same1 same2 = 1"
    using a ne by (simp add: calculateSimilarity_jaccard)
next
  assume "other1 \<noteq> [] \<and> other2 \<noteq> [] \<and> set other1 \<inter> set other2 = {}"
  then show "calculateSimilarity other1 other2 = 0"
    by (simp add: calculateSimilarity_jaccard)
next
  assume a: "findSimilarPattern up categoryName ps userId description merchant = Inr (Some m)
        \<and> m_matchType m = Description"
  then obtain p s where
    f: "firstSimilar (extractKeywords description) (filter (\<lambda>p. pat_userId p = userId) ps)
          = Some (p, s)"
    and c: "m_confidence m = pat_confidence p * s"
    using findSimilarPattern_descriptionD by blast
  from firstSimilar_SomeD [OF f] obtain pre post where
    s: "s = calculateSimilarity (extractKeywords description) (extractKeywords (pat_description p))"
    and gt: "s > 0.7"
    and sp: "filter (\<lambda>p. pat_userId p = userId) ps = pre @ p # post" by blast
  from sp have "p \<in> set (filter (\<lambda>p. pat_userId p = userId) ps)" by simp
  then have "p \<in> set ps" "pat_userId p = userId" by simp_all
  with s gt c show "\<exists>p \<in> set ps. pat_userId p = userId
           \<and> calculateSimilarity (extractKeywords description) (extractKeywords (pat_description p)) > 0.7
           \<and> m_confidence m =
               pat_confidence p
                 * calculateSimilarity (extractKeywords description) (extractKeywords (pat_description p))"
    by blast
qed

theorem similarity_is_jaccard_with_threshold_witness:
  "calculateSimilarity [''swiggy'', ''order''] [''order'', ''food''] = 1 / 3
   \<and> calculateSimilarity [''swiggy'', ''order''] [''order'', ''swiggy'', ''order''] = 1
   \<and> calculateSimilarity [''swiggy'', ''order''] [''zomato''] = 0
   \<and> calculateSimilarity (extractKeywords ''Swiggy order 123 via upi'')
        (extractKeywords ''UPI-SWIGGY ORDER 123'') > 0.7"
proof -
  let ?m = "\<lparr>m_categoryId = ''c1'', m_categoryName = ''Groceries & Food'',
             m_confidence = 27 / 40, m_matchType = Description\<rparr>"
  note T = similarity_is_jaccard_with_threshold
    [of "[''swiggy'', ''order'']" "[''order'', ''food'']"
        "[''swiggy'', ''order'']" "[''order'', ''swiggy'', ''order'']"
        "[''swiggy'', ''order'']" "[''zomato'']"
        True categoryNames "[swiggyPattern]" "''u1''" "''Swiggy order 123 via upi''" None ?m]
  have h1: "[''swiggy'', ''order''] \<noteq> [] \<and> [''order'', ''food''] \<noteq> []" by simp
  have c1: "card (set [''swiggy'', ''order''] \<inter> set [''order'', ''food'']) = 1"
    by code_simp
  have u1: "card (set [''swiggy'', ''order''] \<union> set [''order'', ''food'']) = 3"
    by code_simp
  have h2: "[''swiggy'', ''order''] \<noteq> []
            \<and> set [''order'', ''swiggy'', ''order''] = set [''swiggy'', ''order'']" by auto
  have h3: "[''swiggy'', ''order''] \<noteq> [] \<and> [''zomato''] \<noteq> []
            \<and> set [''swiggy'', ''order''] \<inter> set [''zomato''] = {}" by simp
  have h4: "findSimilarPattern True categoryNames [swiggyPattern] ''u1'' ''Swiggy order 123 via upi'' None
              = Inr (Some ?m) \<and> m_matchType ?m = Description"
    by code_simp
  from T h1 have "calculateSimilarity [''swiggy'', ''order''] [''order'', ''food'']
      = real (card (set [''swiggy'', ''order''] \<inter> set [''order'', ''food'']))
        / real (card (set [''swiggy'', ''order''] \<union> set [''order'', ''food'']))"
    by blast
  then have r1: "calculateSimilarity [''swiggy'', ''order''] [''order'', ''food''] = 1 / 3"
    by (simp only: c1 u1)
  from T h2 have r2: "calculateSimilarity [''swiggy'', ''order''] [''order'', ''swiggy'', ''order''] = 1"
    by blast
  from T h3 have r3: "calculateSimilarity [''swiggy'', ''order''] [''zomato''] = 0"
    by blast
  from T h4 have "\<exists>p \<in> set [swiggyPattern]. pat_userId p = ''u1''
      \<and> calculateSimilarity (extractKeywords ''Swiggy order 123 via upi'')
           (extractKeywords (pat_description p)) > 0.7
      \<and> m_confidence ?m = pat_confidence p
           * calculateSimilarity (extractKeywords ''Swiggy order 123 via upi'')
               (extractKeywords (pat_description p))"
    by blast
  then have r4: "calculateSimilarity (extractKeywords ''Swiggy order 123 via upi'')
        (extractKeywords ''UPI-SWIGGY ORDER 123'') > 0.7"
    by (simp add: swiggyPattern_def)
  from r1 r2 r3 r4 show ?thesis by blast
qed

section \<open>Claim C10: the confidence of a parsed response\<close>

text \<open>
  Claim C10 concludes that a parsed response never yields the confidence 0. A negative
  confidence reported by the LLM is not falsy, so it is kept by \<open>|| 0.5\<close> and then
  raised to 0 by \<open>Math.max(0, ...)\<close>.
\<close>

theorem negative_confidence_counterexample:
  "confidence (parseCategorizationResponse
      (JsonObject \<lparr>pj_category = Some ''Groceries & Food'', pj_confidence = Number (- 1),
                   pj_reasoning = Some ''refund''\<rparr>)
      [''Groceries & Food'']) = Num 0"
  by code_simp

lemma parsed_category_string:
  "pj_category parsed = Some suggested \<Longrightarrow>
     confidence (parseCategorizationResponse (JsonObject parsed) availableCategories)
       = mathMax 0 (mathMin 1 (orDefault (pj_confidence parsed) 0.5))"
  by (simp add: parseCategorizationResponse_def findClosestCategory_def Let_def
           split: option.splits list.splits)

lemma non_numeric_confidence_is_NaN:
  "pj_category parsed = Some suggested \<Longrightarrow> pj_confidence parsed = Other True NaN \<Longrightarrow>
     confidence (parseCategorizationResponse (JsonObject parsed) availableCategories) = NaN"
  by (simp add: parsed_category_string orDefault_def mathMin_def mathMax_def)

text \<open>
  Claim C10, amended. For a parsed JSON object whose category is a string and whose
  confidence is a number, \<open>null\<close> or absent, the returned confidence lies in the
  interval from 0 to 1: an absent, \<open>null\<close> or zero confidence is replaced by 0.5, any
  other number is clamped to the interval, and the result is 0 exactly when the
  reported number is negative. When the category is not a string the fallback of
  confidence 0.1 is returned.
\<close>

theorem parsed_confidence_clamped:
  "(pj_category parsed = None \<longrightarrow>
      confidence (parseCategorizationResponse (JsonObject parsed) availableCategories) = Num 0.1)
   \<and> (pj_category parsed = Some suggested \<longrightarrow>
        (pj_confidence parsed = Absent \<or> pj_confidence parsed = Null
           \<or> pj_confidence parsed = Number 0 \<longrightarrow>
           confidence (parseCategorizationResponse (JsonObject parsed) availableCategories)
             = Num 0.5)
        \<and> (pj_confidence parsed = Number r \<and> r \<noteq> 0 \<longrightarrow>
             confidence (parseCategorizationResponse (JsonObject parsed) availableCategories)
               = Num (max 0 (min 1 r))
             \<and> 0 \<le> max 0 (min 1 r) \<and> max 0 (min 1 r) \<le> 1)
        \<and> (pj_confidence parsed = Number r \<longrightarrow>
             (confidence (parseCategorizationResponse (JsonObject parsed) availableCategories)
                = Num 0) = (r < 0)))"
proof (intro conjI impI)
  assume "pj_category parsed = None"
  then show "confidence (parseCategorizationResponse (JsonObject parsed) availableCategories) = Num 0.1"
    by (simp add: parseCategorizationResponse_def findClosestCategory_def parseFallback_def)
next
  assume s: "pj_category parsed = Some suggested"
  assume "pj_confidence parsed = Absent \<or> pj_confidence parsed = Null
           \<or> pj_confidence parsed = Number 0"
  then show "confidence (parseCategorizationResponse (JsonObject parsed) availableCategories)
             = Num 0.5"
    by (auto simp: parsed_category_string [OF s] orDefault_def mathMin_def mathMax_def)
next
  assume s: "pj_category parsed = Some suggested"
  assume "pj_confidence parsed = Number r \<and> r \<noteq> 0"
  then show "confidence (parseCategorizationResponse (JsonObject parsed) availableCategories)
               = Num (max 0 (min 1 r))"
    by (simp add: parsed_category_string [OF s] orDefault_def mathMin_def mathMax_def)
next
  show "0 \<le> max 0 (min 1 r)" by simp
next
  show "max 0 (min 1 r) \<le> 1" by simp
next
  assume s: "pj_category parsed = Some suggested"
  assume "pj_confidence parsed = Number r"
  then show "(confidence (parseCategorizationResponse (JsonObject parsed) availableCategories)
                = Num 0) = (r < 0)"
    by (auto simp: parsed_category_string [OF s] orDefault_def mathMin_def mathMax_def
                   max_def min_def)
qed

theorem parsed_confidence_clamped_witness:
  "confidence (parseCategorizationResponse
      (JsonObject \<lparr>pj_category = Some ''Salary'', pj_confidence = Number 0, pj_reasoning = None\<rparr>)
      [''Salary'']) = Num 0.5
   \<and> confidence (parseCategorizationResponse
      (JsonObject \<lparr>pj_category = Some ''Salary'', pj_confidence = Number 1.7, pj_reasoning = None\<rparr>)
      [''Salary'']) = Num 1
   \<and> confidence (parseCategorizationResponse
      (JsonObject \<lparr>pj_category = Some ''Salary'', pj_confidence = Number (- 1), pj_reasoning = None\<rparr>)
      [''Salary'']) = Num 0
   \<and> confidence (parseCategorizationResponse
      (JsonObject \<lparr>pj_category = None, pj_confidence = Number 0.9, pj_reasoning = None\<rparr>)
      [''Salary'']) = Num 0.1"
proof -
  let ?p0 = "\<lparr>pj_category = Some ''Salary'', pj_confidence = Number 0, pj_reasoning = None\<rparr>"
  let ?p1 = "\<lparr>pj_category = Some ''Salary'', pj_confidence = Number 1.7, pj_reasoning = None\<rparr>"
  let ?p2 = "\<lparr>pj_category = Some ''Salary'', pj_confidence = Number (- 1), pj_reasoning = None\<rparr>"
  let ?p3 = "\<lparr>pj_category = None, pj_confidence = Number 0.9, pj_reasoning = None\<rparr>"
  have c0: "pj_category ?p0 = Some ''Salary''" by simp
  have h0: "pj_confidence ?p0 = Absent \<or> pj_confidence ?p0 = Null \<or> pj_confidence ?p0 = Number 0"
    by simp
  have r0: "confidence (parseCategorizationResponse (JsonObject ?p0) [''Salary'']) = Num 0.5"
    by (rule parsed_confidence_clamped
          [where parsed = ?p0 and suggested = "''Salary''" and availableCategories = "[''Salary'']",
           THEN conjunct2, THEN mp, OF c0, THEN conjunct1, THEN mp, OF h0])
  have c1: "pj_category ?p1 = Some ''Salary''" by simp
  have h1: "pj_confidence ?p1 = Number 1.7 \<and> (1.7 :: real) \<noteq> 0" by simp
  have "confidence (parseCategorizationResponse (JsonObject ?p1) [''Salary''])
          = Num (max 0 (min 1 1.7))"
    by (rule parsed_confidence_clamped
          [where parsed = ?p1 and suggested = "''Salary''" and availableCategories = "[''Salary'']"
             and r = "1.7",
           THEN conjunct2, THEN mp, OF c1, THEN conjunct2, THEN conjunct1, THEN mp, OF h1,
           THEN conjunct1])
  then have r1: "confidence (parseCategorizationResponse (JsonObject ?p1) [''Salary'']) = Num 1"
    by simp
  have c2: "pj_category ?p2 = Some ''Salary''" by simp
  have h2: "pj_confidence ?p2 = Number (- 1)" by simp
  have "(confidence (parseCategorizationResponse (JsonObject ?p2) [''Salary'']) = Num 0)
          = ((- 1 :: real) < 0)"
    by (rule parsed_confidence_clamped
          [where parsed = ?p2 and suggested = "''Salary''" and availableCategories = "[''Salary'']"
             and r = "- 1",
           THEN conjunct2, THEN mp, OF c2, THEN conjunct2, THEN conjunct2, THEN mp, OF h2])
  then have r2: "confidence (parseCategorizationResponse (JsonObject ?p2) [''Salary'']) = Num 0"
    by simp
  have c3: "pj_category ?p3 = None" by simp
  have r3: "confidence (parseCategorizationResponse (JsonObject ?p3) [''Salary'']) = Num 0.1"
    by (rule parsed_confidence_clamped
          [where parsed = ?p3 and availableCategories = "[''Salary'']",
           THEN conjunct1, THEN mp, OF c3])
  from r0 r1 r2 r3 show ?thesis by (intro conjI)
qed

end
